theory Spec2Isabelle
  imports Complex_Main "HOL-Library.Sublist"
begin

section \<open>Conventions of the embedding\<close>

text \<open>
  The development embeds two modules of TEASER:
  \<^item> \<^verbatim>\<open>data/input/buildingelement_input_json.py\<close> (the type-element resolver), and
  \<^item> \<^verbatim>\<open>teaser/logic/archetypebuildings/bmvbs/singlefamilydwelling.py\<close>
    (the geometry estimator of the single family dwelling archetype).

  Python raises are values of \<open>py_error + 'a\<close> (\<open>Inl\<close> is the exception), mutation of
  an object is explicit state passing, a \<^verbatim>\<open>dict\<close> whose iteration order matters is a
  list of its items in storage order, and a \<^verbatim>\<open>for\<close> loop is a recursive function over
  that list. Python \<^verbatim>\<open>float\<close> values are modelled by exact real numbers: rounding,
  overflow and underflow of IEEE arithmetic are outside the embedding. Classes that the
  two modules call and that are not among the sources are parameters of the embedding:
  the estimator is stated for arbitrary collaborators, each of which may raise.
\<close>

datatype py_error =
    KeyError string
  | TypeError
  | ZeroDivisionError
  | AttributeError string
  | MaterialNotFound string

definition bind_err :: "py_error + 'a \<Rightarrow> ('a \<Rightarrow> py_error + 'b) \<Rightarrow> py_error + 'b" where
  "bind_err m f = (case m of Inl err \<Rightarrow> Inl err | Inr x \<Rightarrow> f x)"

text \<open>\<^verbatim>\<open>d[k]\<close> on a JSON object whose field \<open>k\<close> may be absent.\<close>

definition getitem :: "'a option \<Rightarrow> string \<Rightarrow> py_error + 'a" where
  "getitem field k = (case field of None \<Rightarrow> Inl (KeyError k) | Some v \<Rightarrow> Inr v)"

section \<open>Data model of the type-element resolver\<close>

text \<open>
  A layer definition of a database record:
  \<^verbatim>\<open>{"thickness": ..., "material": {"material_id": ...}}\<close>.
\<close>

record layer_in =
  in_thickness :: real
  in_material_id :: string

text \<open>
  A type-element record of the database (\<^verbatim>\<open>element_in\<close>). The age group, the
  construction type, the two inner coefficients and the layers are read for every
  element; the outer coefficients and the window values are present only for the
  categories that have them, so they are optional fields. \<open>in_layer\<close> is the ordered
  \<^verbatim>\<open>dict\<close> from layer id to layer definition.
\<close>

record element_in =
  in_building_age_group :: "int \<times> int"
  in_construction_type :: string
  in_inner_radiation :: real
  in_inner_convection :: real
  in_outer_radiation :: "real option"
  in_outer_convection :: "real option"
  in_g_value :: "real option"
  in_a_conv :: "real option"
  in_shading_g_total :: "real option"
  in_shading_max_irr :: "real option"
  in_layer :: "(string \<times> layer_in) list"

text \<open>
  An item of \<^verbatim>\<open>data_class.element_bind\<close>: either the metadata item stored under the
  key \<^verbatim>\<open>"version"\<close> (its value is a string, not a record) or a record stored under
  its key.
\<close>

datatype bind_item = Version string | Entry string element_in

fun item_key :: "bind_item \<Rightarrow> string" where
  "item_key (Version v) = ''version''"
| "item_key (Entry k r) = k"

record material =
  material_id :: string
  name :: string
  density :: real
  thermal_conduc :: real
  heat_capac :: real

record layer =
  layer_id :: string
  thickness :: real
  layer_material :: material

text \<open>
  \<^verbatim>\<open>DataClass\<close>: the type-element items in storage order and the material items
  (material id, then name, density, thermal conductivity, heat capacity).
\<close>

record data_class =
  element_bind :: "bind_item list"
  material_bind :: "(string \<times> string \<times> real \<times> real \<times> real) list"

text \<open>
  A building element. \<open>type_name\<close> is \<^verbatim>\<open>type(element).__name__\<close>; an attribute that
  has not been set yet is \<open>None\<close>; \<open>layers\<close> is the list \<^verbatim>\<open>element.layer\<close>.
\<close>

record element =
  type_name :: string
  building_age_group :: "(int \<times> int) option"
  construction_type :: "string option"
  inner_radiation :: "real option"
  inner_convection :: "real option"
  outer_radiation :: "real option"
  outer_convection :: "real option"
  g_value :: "real option"
  a_conv :: "real option"
  shading_g_total :: "real option"
  shading_max_irr :: "real option"
  layers :: "layer list"

section \<open>The type-element resolver\<close>

text \<open>
  Modelled from the spec: \<^verbatim>\<open>material_input_json.load_material_id\<close> is not part of the
  sources. The specification says of it: given a material id and the database, it
  returns conductivity, density, heat capacity and name onto a target Material instance,
  and it fails if the id is absent. The populated material carries the id it was looked
  up by (the stable id of the data model).
\<close>

fun load_material_id ::
  "string \<Rightarrow> (string \<times> string \<times> real \<times> real \<times> real) list \<Rightarrow> py_error + material" where
  "load_material_id mat_id [] = Inl (MaterialNotFound mat_id)"
| "load_material_id mat_id ((i, n, d, tc, hc) # rest) =
     (if i = mat_id
      then Inr \<lparr>material_id = i, name = n, density = d, thermal_conduc = tc, heat_capac = hc\<rparr>
      else load_material_id mat_id rest)"

text \<open>
  \<^verbatim>\<open>_set_basic_data(element, element_in)\<close>. The branch is chosen by the runtime type
  name of the element; a field the record does not hold raises \<^verbatim>\<open>KeyError\<close>.
\<close>

definition set_basic_data :: "element \<Rightarrow> element_in \<Rightarrow> py_error + element" where
  "set_basic_data e r =
     (let e1 = e\<lparr>building_age_group := Some (in_building_age_group r),
                  construction_type := Some (in_construction_type r),
                  inner_radiation := Some (in_inner_radiation r),
                  inner_convection := Some (in_inner_convection r)\<rparr>
      in if type_name e1 = ''OuterWall'' \<or> type_name e1 = ''Rooftop'' \<or> type_name e1 = ''Door''
         then
           (let e2 = e1\<lparr>inner_radiation := Some (in_inner_radiation r),
                         inner_convection := Some (in_inner_convection r)\<rparr>
            in bind_err (getitem (in_outer_radiation r) ''outer_radiation'') (\<lambda>orad.
               bind_err (getitem (in_outer_convection r) ''outer_convection'') (\<lambda>ocon.
               Inr (e2\<lparr>outer_radiation := Some orad, outer_convection := Some ocon\<rparr>))))
         else if type_name e1 = ''Window''
         then
           bind_err (getitem (in_outer_radiation r) ''outer_radiation'') (\<lambda>orad.
           bind_err (getitem (in_outer_convection r) ''outer_convection'') (\<lambda>ocon.
           bind_err (getitem (in_g_value r) ''g_value'') (\<lambda>g.
           bind_err (getitem (in_a_conv r) ''a_conv'') (\<lambda>a.
           bind_err (getitem (in_shading_g_total r) ''shading_g_total'') (\<lambda>sg.
           bind_err (getitem (in_shading_max_irr r) ''shading_max_irr'') (\<lambda>sm.
           Inr (e1\<lparr>outer_radiation := Some orad, outer_convection := Some ocon,
                    g_value := Some g, a_conv := Some a,
                    shading_g_total := Some sg, shading_max_irr := Some sm\<rparr>)))))))
         else Inr e1)"

text \<open>
  The layer loop, which both resolver functions contain with the same text:
  \<^verbatim>\<open>for id, layer_in in ...: layer = Layer(element); layer.id = id;
  layer.thickness = layer_in["thickness"]; material = Material(layer);
  load_material_id(material, layer_in["material"]["material_id"], data_class)\<close>.
  \<^verbatim>\<open>Layer(element)\<close> appends the new layer to the element's layer list.
\<close>

fun load_layers :: "data_class \<Rightarrow> element \<Rightarrow> (string \<times> layer_in) list \<Rightarrow> py_error + element" where
  "load_layers dc e [] = Inr e"
| "load_layers dc e ((i, l) # rest) =
     bind_err (load_material_id (in_material_id l) (material_bind dc)) (\<lambda>m.
       load_layers dc
         (e\<lparr>layers := layers e @ [\<lparr>layer_id = i, thickness = in_thickness l, layer_material = m\<rparr>]\<rparr>)
         rest)"

text \<open>
  \<^verbatim>\<open>element_in["layer"].items().__reversed__() if reverse_layers else
  element_in["layer"].items()\<close>.
\<close>

definition layer_items :: "bool \<Rightarrow> element_in \<Rightarrow> (string \<times> layer_in) list" where
  "layer_items reverse_layers r = (if reverse_layers then rev (in_layer r) else in_layer r)"

text \<open>The loop of \<^verbatim>\<open>load_type_element\<close> over \<^verbatim>\<open>element_binding.items()\<close>.\<close>

fun load_type_element_loop ::
  "int \<Rightarrow> string \<Rightarrow> data_class \<Rightarrow> string \<Rightarrow> bool \<Rightarrow> element \<Rightarrow> bind_item list
     \<Rightarrow> py_error + element" where
  "load_type_element_loop year construction dc element_type reverse_layers e [] = Inr e"
| "load_type_element_loop year construction dc element_type reverse_layers e (Version v # rest) =
     load_type_element_loop year construction dc element_type reverse_layers e rest"
| "load_type_element_loop year construction dc element_type reverse_layers e (Entry key r # rest) =
     (if key \<noteq> ''version''
      then
        (if fst (in_building_age_group r) \<le> year
            \<and> year \<le> snd (in_building_age_group r)
            \<and> in_construction_type r = construction
            \<and> prefix element_type key
         then
           bind_err (set_basic_data e r) (\<lambda>e1.
           bind_err (load_layers dc e1 (layer_items reverse_layers r)) (\<lambda>e2.
             load_type_element_loop year construction dc element_type reverse_layers e2 rest))
         else load_type_element_loop year construction dc element_type reverse_layers e rest)
      else load_type_element_loop year construction dc element_type reverse_layers e rest)"

definition load_type_element ::
  "element \<Rightarrow> int \<Rightarrow> string \<Rightarrow> data_class \<Rightarrow> string option \<Rightarrow> bool \<Rightarrow> py_error + element" where
  "load_type_element e year construction dc element_type reverse_layers =
     (let et = (case element_type of None \<Rightarrow> type_name e | Some t \<Rightarrow> t)
      in load_type_element_loop year construction dc et reverse_layers e (element_bind dc))"

text \<open>
  \<^verbatim>\<open>element_binding[key_str]\<close>: the item stored under the key, \<^verbatim>\<open>KeyError\<close> when
  there is none.
\<close>

fun bind_lookup :: "bind_item list \<Rightarrow> string \<Rightarrow> py_error + bind_item" where
  "bind_lookup [] key_str = Inl (KeyError key_str)"
| "bind_lookup (it # rest) key_str =
     (if item_key it = key_str then Inr it else bind_lookup rest key_str)"

text \<open>
  \<^verbatim>\<open>load_type_element_by_key\<close>. Indexing the version string with a field name raises
  \<^verbatim>\<open>TypeError\<close>.
\<close>

definition load_type_element_by_key ::
  "element \<Rightarrow> string \<Rightarrow> data_class \<Rightarrow> bool \<Rightarrow> py_error + element" where
  "load_type_element_by_key e key_str dc reverse_layers =
     bind_err (bind_lookup (element_bind dc) key_str) (\<lambda>it.
       case it of
         Version v \<Rightarrow> Inl TypeError
       | Entry k r \<Rightarrow>
           bind_err (set_basic_data e r) (\<lambda>e1.
             load_layers dc e1 (layer_items reverse_layers r)))"

section \<open>Data model of the geometry estimator\<close>

text \<open>
  A Python \<^verbatim>\<open>dict\<close> that is iterated is the list of its items in insertion order.
  \<^verbatim>\<open>d[k] = v\<close> replaces the value of a key that is present, in place, and appends
  the item otherwise; \<open>map_of\<close> reads a key.
\<close>

fun dict_set :: "('k \<times> 'v) list \<Rightarrow> 'k \<Rightarrow> 'v \<Rightarrow> ('k \<times> 'v) list" where
  "dict_set [] k v = [(k, v)]"
| "dict_set ((k', v') # rest) k v =
     (if k' = k then (k', v) # rest else (k', v') # dict_set rest k v)"

text \<open>
  The constructor parameters of \<^verbatim>\<open>SingleFamilyDwelling\<close> that the estimation reads.
  The five configuration values default to \<^verbatim>\<open>None\<close>. \<open>a_outer_area\<close> and
  \<open>a_window_area\<close> are the dictionaries \<^verbatim>\<open>self.outer_area\<close> and
  \<^verbatim>\<open>self.window_area\<close> as the base-class constructor leaves them; the base classes
  are not part of the sources, so the two are parameters.
\<close>

record sfd_args =
  a_net_leased_area :: real
  a_number_of_floors :: int
  a_residential_layout :: "int option"
  a_neighbour_buildings :: "int option"
  a_attic :: "int option"
  a_cellar :: "int option"
  a_dormer :: "int option"
  a_outer_area :: "(real \<times> real) list"
  a_window_area :: "(real \<times> real) list"

text \<open>
  The attributes of a \<^verbatim>\<open>SingleFamilyDwelling\<close> object that the estimation reads or
  writes. An attribute \<^verbatim>\<open>_x\<close> of the source is the field \<open>u_x\<close> (an Isabelle name
  cannot start with an underscore, and \<^verbatim>\<open>est_factor_neighbour\<close> and
  \<^verbatim>\<open>_est_factor_neighbour\<close> are two attributes). An attribute that the constructor
  assigns only inside a conditional, or not at all, is optional: \<open>None\<close> is "not
  set". A names dictionary maps a name to \<^verbatim>\<open>[tilt, orientation]\<close>. An item of
  \<^verbatim>\<open>zone_area_factors\<close> is the zone name, the area factor, the usage, and the two
  optional overrides \<^verbatim>\<open>value[2]['number_of_floors']\<close> and
  \<^verbatim>\<open>value[2]['height_of_floors']\<close> (\<open>None\<close> where the source catches the
  \<^verbatim>\<open>KeyError\<close> or \<^verbatim>\<open>IndexError\<close> of reading them).
\<close>

record sfd =
  net_leased_area :: real
  number_of_floors :: int
  residential_layout :: int
  neighbour_buildings :: int
  attic :: int
  cellar :: int
  dormer :: int
  zone_area_factors :: "(string \<times> real \<times> string \<times> int option \<times> real option) list"
  outer_wall_names :: "(string \<times> real \<times> real) list"
  roof_names :: "(string \<times> real \<times> real) list"
  ground_floor_names :: "(string \<times> real \<times> real) list"
  window_names :: "(string \<times> real \<times> real) list"
  inner_wall_names :: "(string \<times> real \<times> real) list"
  ceiling_names :: "(string \<times> real \<times> real) list"
  floor_names :: "(string \<times> real \<times> real) list"
  est_living_area_factor :: real
  est_bottom_building_closure :: real
  est_upper_building_closure :: real
  est_factor_win_area :: real
  est_factor_cellar_area :: real
  nr_of_orientation :: nat
  u_living_area_per_floor :: real
  u_number_of_heated_floors :: real
  u_est_factor_heated_cellar :: real
  u_est_factor_heated_attic :: real
  u_est_roof_area :: real
  u_est_ground_floor_area :: real
  u_est_win_area :: real
  u_est_outer_wall_area :: real
  u_est_cellar_wall_area :: real
  est_factor_neighbour :: real
  est_extra_floor_area :: real
  u_est_factor_neighbour :: "real option"
  u_est_extra_floor_area :: "real option"
  u_est_facade_to_floor_area :: real
  u_est_area_per_floor :: real
  u_est_area_per_roof :: real
  u_est_factor_dormer :: real
  u_top_floor_area :: "real option"
  u_est_facade_area :: "real option"
  outer_area :: "(real \<times> real) list"
  window_area :: "(real \<times> real) list"

text \<open>
  The collaborators of \<^verbatim>\<open>generate_archetype\<close>. The zone, use-condition and element
  classes and the building base class are not part of the sources, so what the estimator
  calls on them is a parameter. Each call reads the object (the \<open>sfd\<close> argument) and
  acts on the rest of the object graph (a value of the type \<open>'w\<close>: the zones, their
  elements, and every attribute not listed in \<open>sfd\<close>), and each may raise. The
  attributes listed in \<open>sfd\<close> are written by the estimator's own statements only, with
  one exception: setting the area of a zone re-derives \<^verbatim>\<open>net_leased_area\<close> of the
  building, so that call returns the new value of that attribute as well.
  \<^item> \<open>c_reset_thermal_zones\<close>: the assignment \<^verbatim>\<open>self.thermal_zones = None\<close>.
  \<^item> \<open>c_thermal_zone key area usage number_of_floors height_of_floors\<close>: one pass of
    the loop over \<^verbatim>\<open>zone_area_factors\<close>, which creates a \<^verbatim>\<open>ThermalZone\<close>, names it,
    sets its area and the overrides, and loads its use conditions.
  \<^item> \<open>c_elements class key tilt orientation\<close>: the loop
    \<^verbatim>\<open>for zone in self.thermal_zones\<close> that creates an element of the class in every
    zone, calls its \<^verbatim>\<open>load_type_element\<close> (for a window with the construction chosen
    by \<^verbatim>\<open>is_kfw()\<close>) and sets its name, tilt and orientation.
  \<^item> \<open>c_set_outer_wall_area value key\<close> and \<open>c_set_window_area value key\<close>: the
    methods \<^verbatim>\<open>set_outer_wall_area\<close> and \<^verbatim>\<open>set_window_area\<close>.
  \<^item> \<open>c_zone_areas\<close>: the last loop, \<^verbatim>\<open>set_inner_wall_area\<close> and
    \<^verbatim>\<open>set_volume_zone\<close> of every zone.
\<close>

record 'w collaborators =
  c_reset_thermal_zones :: "'w \<Rightarrow> 'w"
  c_thermal_zone ::
    "string \<Rightarrow> real \<Rightarrow> string \<Rightarrow> int option \<Rightarrow> real option \<Rightarrow> sfd \<Rightarrow> 'w
       \<Rightarrow> py_error + real \<times> 'w"
  c_elements :: "string \<Rightarrow> string \<Rightarrow> real \<Rightarrow> real \<Rightarrow> sfd \<Rightarrow> 'w \<Rightarrow> py_error + 'w"
  c_set_outer_wall_area :: "real \<Rightarrow> real \<Rightarrow> sfd \<Rightarrow> 'w \<Rightarrow> py_error + 'w"
  c_set_window_area :: "real \<Rightarrow> real \<Rightarrow> sfd \<Rightarrow> 'w \<Rightarrow> py_error + 'w"
  c_zone_areas :: "sfd \<Rightarrow> 'w \<Rightarrow> py_error + 'w"

section \<open>The geometry estimator\<close>

text \<open>
  The property setters of \<^verbatim>\<open>residential_layout\<close>, \<^verbatim>\<open>neighbour_buildings\<close>,
  \<^verbatim>\<open>attic\<close>, \<^verbatim>\<open>cellar\<close> and \<^verbatim>\<open>dormer\<close> have the same body: the value, or 0
  for \<^verbatim>\<open>None\<close>.
\<close>

definition config_setter :: "int option \<Rightarrow> int" where
  "config_setter v = (case v of Some x \<Rightarrow> x | None \<Rightarrow> 0)"

text \<open>The five conditional chains of the constructor, in the order of the source.\<close>

definition init_neighbour :: "sfd \<Rightarrow> sfd" where
  "init_neighbour b =
     (if neighbour_buildings b = 0
      then b\<lparr>u_est_factor_neighbour := Some 0.0, u_est_extra_floor_area := Some 50.0\<rparr>
      else if neighbour_buildings b = 1
      then b\<lparr>u_est_factor_neighbour := Some 1.0, u_est_extra_floor_area := Some 30.0\<rparr>
      else if neighbour_buildings b = 2
      then b\<lparr>u_est_factor_neighbour := Some 2.0, u_est_extra_floor_area := Some 10.0\<rparr>
      else b)"

definition init_layout :: "sfd \<Rightarrow> sfd" where
  "init_layout b =
     (let b1 = b\<lparr>u_est_facade_to_floor_area := 0.0\<rparr>
      in if residential_layout b1 = 0 then b1\<lparr>u_est_facade_to_floor_area := 0.66\<rparr>
         else if residential_layout b1 = 1 then b1\<lparr>u_est_facade_to_floor_area := 0.8\<rparr>
         else b1)"

definition init_attic :: "sfd \<Rightarrow> sfd" where
  "init_attic b =
     (let b1 = b\<lparr>u_est_factor_heated_attic := 0.0, u_est_area_per_floor := 0.0,
                  u_est_area_per_roof := 0.0\<rparr>
      in if attic b1 = 0
         then b1\<lparr>u_est_factor_heated_attic := 0.0, u_est_area_per_floor := 1.33,
                  u_est_area_per_roof := 0.0\<rparr>
         else if attic b1 = 1
         then b1\<lparr>u_est_factor_heated_attic := 0.0, u_est_area_per_floor := 0.0,
                  u_est_area_per_roof := 1.33\<rparr>
         else if attic b1 = 2
         then b1\<lparr>u_est_factor_heated_attic := 0.5, u_est_area_per_floor := 0.75,
                  u_est_area_per_roof := 0.67\<rparr>
         else if attic b1 = 3
         then b1\<lparr>u_est_factor_heated_attic := 1.0, u_est_area_per_floor := 1.5,
                  u_est_area_per_roof := 0.0\<rparr>
         else b1)"

definition init_cellar :: "sfd \<Rightarrow> sfd" where
  "init_cellar b =
     (let b1 = b\<lparr>u_est_factor_heated_cellar := 0.0\<rparr>
      in if cellar b1 = 0 then b1\<lparr>u_est_factor_heated_cellar := 0.0\<rparr>
         else if cellar b1 = 1 then b1\<lparr>u_est_factor_heated_cellar := 0.0\<rparr>
         else if cellar b1 = 2 then b1\<lparr>u_est_factor_heated_cellar := 0.5\<rparr>
         else if cellar b1 = 3 then b1\<lparr>u_est_factor_heated_cellar := 1.0\<rparr>
         else b1)"

definition init_dormer :: "sfd \<Rightarrow> sfd" where
  "init_dormer b =
     (let b1 = b\<lparr>u_est_factor_dormer := 0.0\<rparr>
      in if dormer b1 = 0 then b1\<lparr>u_est_factor_dormer := 1.0\<rparr>
         else if dormer b1 = 1 then b1\<lparr>u_est_factor_dormer := 1.3\<rparr>
         else b1)"

text \<open>
  The attribute values before the conditional chains run; \<^verbatim>\<open>nr_of_orientation\<close> is
  \<^verbatim>\<open>len(self.outer_wall_names)\<close>. \<^verbatim>\<open>_est_factor_neighbour\<close>
  and \<^verbatim>\<open>_est_extra_floor_area\<close> are assigned only inside the neighbour chain, and
  \<^verbatim>\<open>_top_floor_area\<close> and \<^verbatim>\<open>_est_facade_area\<close> only by \<^verbatim>\<open>generate_archetype\<close>.
\<close>

definition init_attributes :: "sfd_args \<Rightarrow> sfd" where
  "init_attributes args =
     (let names :: (string \<times> real \<times> real) list =
        [(''Exterior Facade North'', 90.0, 0.0), (''Exterior Facade East'', 90.0, 90.0),
         (''Exterior Facade South'', 90.0, 180.0), (''Exterior Facade West'', 90.0, 270.0)]
      in
     \<lparr>net_leased_area = a_net_leased_area args,
      number_of_floors = a_number_of_floors args,
      residential_layout = config_setter (a_residential_layout args),
      neighbour_buildings = config_setter (a_neighbour_buildings args),
      attic = config_setter (a_attic args),
      cellar = config_setter (a_cellar args),
      dormer = config_setter (a_dormer args),
      zone_area_factors = [(''SingleDwelling'', 1, ''Living'', None, None)],
      outer_wall_names = names,
      roof_names = [(''Rooftop'', 0, -1)],
      ground_floor_names = [(''Ground Floor'', 0, -2)],
      window_names =
        [(''Window Facade North'', 90.0, 0.0), (''Window Facade East'', 90.0, 90.0),
         (''Window Facade South'', 90.0, 180.0), (''Window Facade West'', 90.0, 270.0)],
      inner_wall_names = [(''InnerWall'', 90.0, 0.0)],
      ceiling_names = [(''Ceiling'', 0.0, -1)],
      floor_names = [(''Floor'', 0.0, -2)],
      est_living_area_factor = 0.75,
      est_bottom_building_closure = 1.33,
      est_upper_building_closure = 1.0,
      est_factor_win_area = 0.2,
      est_factor_cellar_area = 0.5,
      nr_of_orientation = length names,
      u_living_area_per_floor = 0,
      u_number_of_heated_floors = 0,
      u_est_factor_heated_cellar = 0,
      u_est_factor_heated_attic = 0,
      u_est_roof_area = 0,
      u_est_ground_floor_area = 0.0,
      u_est_win_area = 0,
      u_est_outer_wall_area = 0.0,
      u_est_cellar_wall_area = 0,
      est_factor_neighbour = 0.0,
      est_extra_floor_area = 0.0,
      u_est_factor_neighbour = None,
      u_est_extra_floor_area = None,
      u_est_facade_to_floor_area = 0.0,
      u_est_area_per_floor = 0.0,
      u_est_area_per_roof = 0.0,
      u_est_factor_dormer = 0.0,
      u_top_floor_area = None,
      u_est_facade_area = None,
      outer_area = a_outer_area args,
      window_area = a_window_area args\<rparr>)"

text \<open>\<^verbatim>\<open>SingleFamilyDwelling.__init__\<close>.\<close>

definition SingleFamilyDwelling :: "sfd_args \<Rightarrow> sfd" where
  "SingleFamilyDwelling args =
     init_dormer (init_cellar (init_attic (init_layout (init_neighbour (init_attributes args)))))"

text \<open>Python's \<^verbatim>\<open>/\<close> on numbers.\<close>

definition py_truediv :: "real \<Rightarrow> real \<Rightarrow> py_error + real" where
  "py_truediv x y = (if y = 0 then Inl ZeroDivisionError else Inr (x / y))"

text \<open>Reading an attribute that may not have been set.\<close>

definition getattr :: "'a option \<Rightarrow> string \<Rightarrow> py_error + 'a" where
  "getattr field k = (case field of None \<Rightarrow> Inl (AttributeError k) | Some v \<Rightarrow> Inr v)"

text \<open>
  The loop over \<^verbatim>\<open>zone_area_factors\<close> (lines 404 to 420); \<open>type_bldg_area\<close> is
  the local variable of that name, and \<open>nla\<close> is \<^verbatim>\<open>net_leased_area\<close> as the new zone
  leaves it.
\<close>

fun zone_loop ::
  "'w collaborators \<Rightarrow> real \<Rightarrow> sfd \<Rightarrow> 'w
     \<Rightarrow> (string \<times> real \<times> string \<times> int option \<times> real option) list \<Rightarrow> py_error + sfd \<times> 'w" where
  "zone_loop ext type_bldg_area b w [] = Inr (b, w)"
| "zone_loop ext type_bldg_area b w ((key, factor, usage, nf, hf) # rest) =
     bind_err (c_thermal_zone ext key (type_bldg_area * factor) usage nf hf b w) (\<lambda>(nla, w1).
       zone_loop ext type_bldg_area (b\<lparr>net_leased_area := nla\<rparr>) w1 rest)"

text \<open>
  The loops over \<^verbatim>\<open>outer_wall_names\<close>, \<^verbatim>\<open>window_names\<close>, \<^verbatim>\<open>roof_names\<close> and
  \<^verbatim>\<open>ground_floor_names\<close>: the area entry of the orientation, then the elements of
  every zone.
\<close>

fun outer_wall_loop ::
  "'w collaborators \<Rightarrow> sfd \<Rightarrow> 'w \<Rightarrow> (string \<times> real \<times> real) list \<Rightarrow> py_error + sfd \<times> 'w" where
  "outer_wall_loop ext b w [] = Inr (b, w)"
| "outer_wall_loop ext b w ((key, tilt, orientation) # rest) =
     bind_err
       (if orientation = 0 \<or> orientation = 180.0
        then bind_err (py_truediv (u_est_outer_wall_area b) (real (nr_of_orientation b))) (\<lambda>a.
               Inr (b\<lparr>outer_area := dict_set (outer_area b) orientation a\<rparr>))
        else if orientation = 90 \<or> orientation = 270
        then bind_err (py_truediv (u_est_outer_wall_area b) (real (nr_of_orientation b))) (\<lambda>a.
               Inr (b\<lparr>outer_area := dict_set (outer_area b) orientation a\<rparr>))
        else Inr b)
       (\<lambda>b1. bind_err (c_elements ext ''OuterWall'' key tilt orientation b1 w) (\<lambda>w1.
          outer_wall_loop ext b1 w1 rest))"

fun window_loop ::
  "'w collaborators \<Rightarrow> sfd \<Rightarrow> 'w \<Rightarrow> (string \<times> real \<times> real) list \<Rightarrow> py_error + sfd \<times> 'w" where
  "window_loop ext b w [] = Inr (b, w)"
| "window_loop ext b w ((key, tilt, orientation) # rest) =
     bind_err
       (if orientation = 0 \<or> orientation = 180
        then bind_err (py_truediv (u_est_win_area b) (real (nr_of_orientation b))) (\<lambda>a.
               Inr (b\<lparr>window_area := dict_set (window_area b) orientation a\<rparr>))
        else if orientation = 90 \<or> orientation = 270
        then bind_err (py_truediv (u_est_win_area b) (real (nr_of_orientation b))) (\<lambda>a.
               Inr (b\<lparr>window_area := dict_set (window_area b) orientation a\<rparr>))
        else Inr b)
       (\<lambda>b1. bind_err (c_elements ext ''Window'' key tilt orientation b1 w) (\<lambda>w1.
          window_loop ext b1 w1 rest))"

fun roof_loop ::
  "'w collaborators \<Rightarrow> sfd \<Rightarrow> 'w \<Rightarrow> (string \<times> real \<times> real) list \<Rightarrow> py_error + sfd \<times> 'w" where
  "roof_loop ext b w [] = Inr (b, w)"
| "roof_loop ext b w ((key, tilt, orientation) # rest) =
     (let b1 = b\<lparr>outer_area := dict_set (outer_area b) orientation (u_est_roof_area b)\<rparr>
      in bind_err (c_elements ext ''Rooftop'' key tilt orientation b1 w) (\<lambda>w1.
           roof_loop ext b1 w1 rest))"

fun ground_floor_loop ::
  "'w collaborators \<Rightarrow> sfd \<Rightarrow> 'w \<Rightarrow> (string \<times> real \<times> real) list \<Rightarrow> py_error + sfd \<times> 'w" where
  "ground_floor_loop ext b w [] = Inr (b, w)"
| "ground_floor_loop ext b w ((key, tilt, orientation) # rest) =
     (let b1 = b\<lparr>outer_area := dict_set (outer_area b) orientation (u_est_ground_floor_area b)\<rparr>
      in bind_err (c_elements ext ''GroundFloor'' key tilt orientation b1 w) (\<lambda>w1.
           ground_floor_loop ext b1 w1 rest))"

text \<open>
  The loops over \<^verbatim>\<open>inner_wall_names\<close>, \<^verbatim>\<open>ceiling_names\<close> and \<^verbatim>\<open>floor_names\<close>,
  which assign no area.
\<close>

fun element_loop ::
  "'w collaborators \<Rightarrow> string \<Rightarrow> sfd \<Rightarrow> (string \<times> real \<times> real) list \<Rightarrow> 'w \<Rightarrow> py_error + 'w" where
  "element_loop ext cls b [] w = Inr w"
| "element_loop ext cls b ((key, tilt, orientation) # rest) w =
     bind_err (c_elements ext cls key tilt orientation b w) (\<lambda>w1. element_loop ext cls b rest w1)"

text \<open>
  \<^verbatim>\<open>for key, value in self.outer_area.items(): self.set_outer_wall_area(value, key)\<close>,
  and the same loop over \<^verbatim>\<open>window_area\<close>.
\<close>

fun area_loop ::
  "(real \<Rightarrow> real \<Rightarrow> sfd \<Rightarrow> 'w \<Rightarrow> py_error + 'w) \<Rightarrow> sfd \<Rightarrow> (real \<times> real) list \<Rightarrow> 'w
     \<Rightarrow> py_error + 'w" where
  "area_loop set_area b [] w = Inr w"
| "area_loop set_area b ((key, val) # rest) w =
     bind_err (set_area val key b w) (\<lambda>w1. area_loop set_area b rest w1)"

text \<open>
  The statements of \<^verbatim>\<open>generate_archetype\<close> from line 404 on: the zones, the envelope
  elements with their area entries, the inner elements (ceilings and floors only with more
  than one floor), the committed areas and the zone aggregation.
\<close>

definition generate_elements ::
  "'w collaborators \<Rightarrow> real \<Rightarrow> sfd \<Rightarrow> 'w \<Rightarrow> py_error + sfd \<times> 'w" where
  "generate_elements ext type_bldg_area b w =
     bind_err (zone_loop ext type_bldg_area b w (zone_area_factors b)) (\<lambda>(b1, w1).
     bind_err (outer_wall_loop ext b1 w1 (outer_wall_names b1)) (\<lambda>(b2, w2).
     bind_err (window_loop ext b2 w2 (window_names b2)) (\<lambda>(b3, w3).
     bind_err (roof_loop ext b3 w3 (roof_names b3)) (\<lambda>(b4, w4).
     bind_err (ground_floor_loop ext b4 w4 (ground_floor_names b4)) (\<lambda>(b5, w5).
     bind_err (element_loop ext ''InnerWall'' b5 (inner_wall_names b5) w5) (\<lambda>w6.
     bind_err
       (if number_of_floors b5 > 1
        then bind_err (element_loop ext ''Ceiling'' b5 (ceiling_names b5) w6) (\<lambda>w.
               element_loop ext ''Floor'' b5 (floor_names b5) w)
        else Inr w6)
       (\<lambda>w7.
     bind_err (area_loop (c_set_outer_wall_area ext) b5 (outer_area b5) w7) (\<lambda>w8.
     bind_err (area_loop (c_set_window_area ext) b5 (window_area b5) w8) (\<lambda>w9.
     bind_err (c_zone_areas ext b5 w9) (\<lambda>w10. Inr (b5, w10)))))))))))"

text \<open>
  \<^verbatim>\<open>generate_archetype\<close>: the estimation stages (lines 356 to 400), statement by
  statement, and then the statements above. The result is the object and the rest of the
  object graph.
\<close>

definition generate_archetype :: "'w collaborators \<Rightarrow> sfd \<Rightarrow> 'w \<Rightarrow> py_error + sfd \<times> 'w" where
  "generate_archetype ext b w =
     (let w0 = c_reset_thermal_zones ext w;
          type_bldg_area = net_leased_area b;
          b1 = b\<lparr>net_leased_area := 0.0\<rparr>;
          b2 = b1\<lparr>u_number_of_heated_floors :=
                    u_est_factor_heated_cellar b1
                    + of_int (number_of_floors b1)
                    + est_living_area_factor b1 * u_est_factor_heated_attic b1\<rparr>
      in bind_err (py_truediv type_bldg_area (u_number_of_heated_floors b2)) (\<lambda>lapf.
         let b3 = b2\<lparr>u_living_area_per_floor := lapf\<rparr>;
             b4 = b3\<lparr>u_est_ground_floor_area :=
                       est_bottom_building_closure b3 * u_living_area_per_floor b3\<rparr>;
             b5 = b4\<lparr>u_est_roof_area :=
                       est_upper_building_closure b4
                       * u_est_factor_dormer b4
                       * u_est_area_per_floor b4
                       * u_living_area_per_floor b4\<rparr>;
             top_floor_area = u_est_area_per_roof b5 * u_living_area_per_floor b5;
             b6 = b5\<lparr>u_top_floor_area := Some top_floor_area\<rparr>;
             b7 = (if u_est_roof_area b6 = 0 then b6\<lparr>u_est_roof_area := top_floor_area\<rparr> else b6)
         in bind_err (getattr (u_est_extra_floor_area b7) ''_est_extra_floor_area'') (\<lambda>extra.
            let est_facade_area =
                  u_est_facade_to_floor_area b7 * (u_living_area_per_floor b7 + extra);
                b8 = b7\<lparr>u_est_facade_area := Some est_facade_area\<rparr>;
                b9 = b8\<lparr>u_est_win_area := est_factor_win_area b8 * type_bldg_area\<rparr>;
                b10 = b9\<lparr>u_est_cellar_wall_area :=
                           est_factor_cellar_area b9
                           * u_est_factor_heated_cellar b9
                           * est_facade_area\<rparr>;
                b11 = b10\<lparr>u_est_outer_wall_area :=
                            (u_number_of_heated_floors b10 * est_facade_area)
                            - u_est_cellar_wall_area b10
                            - u_est_win_area b10\<rparr>
            in generate_elements ext type_bldg_area b11 w0)))"

section \<open>The resolver in the words of the specification\<close>

text \<open>
  The matching predicate as the specification words it: the key is not the metadata
  entry \<^verbatim>\<open>"version"\<close>, the key starts with the category string, the age range contains
  the year (both bounds inclusive) and the technique tag equals the technique. The
  metadata item is stored under the key \<^verbatim>\<open>"version"\<close>, so it never matches.
\<close>

fun spec_matches :: "string \<Rightarrow> int \<Rightarrow> string \<Rightarrow> bind_item \<Rightarrow> bool" where
  "spec_matches category year technique (Version v) = False"
| "spec_matches category year technique (Entry key r) =
     (key \<noteq> ''version''
      \<and> prefix category key
      \<and> fst (in_building_age_group r) \<le> year \<and> year \<le> snd (in_building_age_group r)
      \<and> in_construction_type r = technique)"

text \<open>The category: the runtime type name of the element unless the override is given.\<close>

definition spec_category :: "element \<Rightarrow> string option \<Rightarrow> string" where
  "spec_category e element_type = (case element_type of None \<Rightarrow> type_name e | Some t \<Rightarrow> t)"

text \<open>
  Applying one record: copy its coefficients onto the element, then create one layer per
  layer definition, iterated in reverse if \<open>reverse_layers\<close> is set, forward otherwise.
\<close>

definition spec_apply :: "data_class \<Rightarrow> bool \<Rightarrow> element \<Rightarrow> element_in \<Rightarrow> py_error + element" where
  "spec_apply dc reverse_layers e r =
     bind_err (set_basic_data e r) (\<lambda>e1.
       load_layers dc e1 (if reverse_layers then rev (in_layer r) else in_layer r))"

text \<open>Applying the records of a list of items one after the other; an error ends it.\<close>

fun spec_apply_all :: "data_class \<Rightarrow> bool \<Rightarrow> element \<Rightarrow> bind_item list \<Rightarrow> py_error + element" where
  "spec_apply_all dc reverse_layers e [] = Inr e"
| "spec_apply_all dc reverse_layers e (Version v # rest) = spec_apply_all dc reverse_layers e rest"
| "spec_apply_all dc reverse_layers e (Entry k r # rest) =
     bind_err (spec_apply dc reverse_layers e r) (\<lambda>e1. spec_apply_all dc reverse_layers e1 rest)"

text \<open>
  What a layer definition prescribes for a layer, and what a layer of the element
  holds: the layer id, the thickness and the material id.
\<close>

definition layer_in_view :: "string \<times> layer_in \<Rightarrow> string \<times> real \<times> string" where
  "layer_in_view p = (fst p, in_thickness (snd p), in_material_id (snd p))"

definition layer_view :: "layer \<Rightarrow> string \<times> real \<times> string" where
  "layer_view l = (layer_id l, thickness l, material_id (layer_material l))"

text \<open>
  What applying a record means, in the words of the specification: the age range, the
  technique tag and the two inner coefficients of the record are copied onto the element;
  an element of an opaque category (outer wall, rooftop, door) or a window takes the outer
  coefficients of the record as well, a window also the solar gain factor, the convective
  area fraction and the two shading values; every other attribute keeps its value; and the
  element gains, after the layers it had, one layer per layer definition of the record,
  in storage order, or in reversed order if \<open>reverse_layers\<close> is set.
  \<open>spec_applied reverse_layers e r e'\<close> says that \<open>e'\<close> is \<open>e\<close> with the record
  \<open>r\<close> applied.
\<close>

definition spec_applied :: "bool \<Rightarrow> element \<Rightarrow> element_in \<Rightarrow> element \<Rightarrow> bool" where
  "spec_applied reverse_layers e r e' =
     (type_name e' = type_name e
      \<and> building_age_group e' = Some (in_building_age_group r)
      \<and> construction_type e' = Some (in_construction_type r)
      \<and> inner_radiation e' = Some (in_inner_radiation r)
      \<and> inner_convection e' = Some (in_inner_convection r)
      \<and> (if type_name e \<in> {''OuterWall'', ''Rooftop'', ''Door'', ''Window''}
         then outer_radiation e' = in_outer_radiation r
              \<and> outer_convection e' = in_outer_convection r
         else outer_radiation e' = outer_radiation e
              \<and> outer_convection e' = outer_convection e)
      \<and> (if type_name e = ''Window''
         then g_value e' = in_g_value r \<and> a_conv e' = in_a_conv r
              \<and> shading_g_total e' = in_shading_g_total r
              \<and> shading_max_irr e' = in_shading_max_irr r
         else g_value e' = g_value e \<and> a_conv e' = a_conv e
              \<and> shading_g_total e' = shading_g_total e
              \<and> shading_max_irr e' = shading_max_irr e)
      \<and> take (length (layers e)) (layers e') = layers e
      \<and> map layer_view (drop (length (layers e)) (layers e'))
          = map layer_in_view (if reverse_layers then rev (in_layer r) else in_layer r))"

text \<open>
  A record can be applied to an element when it holds the coefficients that the category
  of the element takes and every material id of its layer definitions is in the material
  database.
\<close>

definition spec_applicable :: "data_class \<Rightarrow> element \<Rightarrow> element_in \<Rightarrow> bool" where
  "spec_applicable dc e r =
     ((type_name e \<in> {''OuterWall'', ''Rooftop'', ''Door'', ''Window''}
         \<longrightarrow> in_outer_radiation r \<noteq> None \<and> in_outer_convection r \<noteq> None)
      \<and> (type_name e = ''Window''
         \<longrightarrow> in_g_value r \<noteq> None \<and> in_a_conv r \<noteq> None
           \<and> in_shading_g_total r \<noteq> None \<and> in_shading_max_irr r \<noteq> None)
      \<and> set (map (\<lambda>p. in_material_id (snd p)) (in_layer r)) \<subseteq> set (map fst (material_bind dc)))"

section \<open>Example data\<close>

text \<open>
  A small database in the shape of the type-element files: the version item, one outer
  wall record with the four coefficients of an opaque element and one inner wall record
  with the two inner coefficients only.
\<close>

definition ex_outer_record :: element_in where
  "ex_outer_record =
     \<lparr>in_building_age_group = (0, 1918), in_construction_type = ''heavy'',
      in_inner_radiation = 5.0, in_inner_convection = 2.7,
      in_outer_radiation = Some 5.0, in_outer_convection = Some 20.0,
      in_g_value = None, in_a_conv = None, in_shading_g_total = None,
      in_shading_max_irr = None,
      in_layer = [(''0'', \<lparr>in_thickness = 0.015, in_material_id = ''m1''\<rparr>),
                  (''1'', \<lparr>in_thickness = 0.36, in_material_id = ''m2''\<rparr>)]\<rparr>"

definition ex_inner_record :: element_in where
  "ex_inner_record =
     \<lparr>in_building_age_group = (0, 1918), in_construction_type = ''heavy'',
      in_inner_radiation = 5.0, in_inner_convection = 2.7,
      in_outer_radiation = None, in_outer_convection = None,
      in_g_value = None, in_a_conv = None, in_shading_g_total = None,
      in_shading_max_irr = None,
      in_layer = [(''0'', \<lparr>in_thickness = 0.1, in_material_id = ''m2''\<rparr>)]\<rparr>"

definition ex_data :: data_class where
  "ex_data =
     \<lparr>element_bind = [Version ''0.7'', Entry ''OuterWall_1918_heavy'' ex_outer_record,
                      Entry ''InnerWall_1918_heavy'' ex_inner_record],
      material_bind = [(''m1'', ''plaster'', 1200, 0.51, 1.0),
                       (''m2'', ''brick'', 1800, 0.81, 0.84)]\<rparr>"

text \<open>An element of the given runtime type on which nothing has been set yet.\<close>

definition new_element :: "string \<Rightarrow> element" where
  "new_element tn =
     \<lparr>type_name = tn, building_age_group = None, construction_type = None,
      inner_radiation = None, inner_convection = None, outer_radiation = None,
      outer_convection = None, g_value = None, a_conv = None, shading_g_total = None,
      shading_max_irr = None, layers = []\<rparr>"

section \<open>The stage values of the estimator as expressions\<close>

text \<open>
  The values that \<^verbatim>\<open>generate_archetype\<close> computes, written as expressions in the
  attributes of the object it is called on: the heated floor count, the roof product
  before the fallback, the facade area for a given extra floor area, and the object after
  the last estimation stage (line 400 of the source), before the loops. They are used to
  state and prove what \<^verbatim>\<open>generate_archetype\<close> returns.
\<close>

definition heated_floors_of :: "sfd \<Rightarrow> real" where
  "heated_floors_of b =
     u_est_factor_heated_cellar b + of_int (number_of_floors b)
     + est_living_area_factor b * u_est_factor_heated_attic b"

definition roof_product_of :: "sfd \<Rightarrow> real" where
  "roof_product_of b =
     est_upper_building_closure b * u_est_factor_dormer b * u_est_area_per_floor b
     * (net_leased_area b / heated_floors_of b)"

definition facade_area_of :: "sfd \<Rightarrow> real \<Rightarrow> real" where
  "facade_area_of b extra =
     u_est_facade_to_floor_area b * (net_leased_area b / heated_floors_of b + extra)"

definition estimated :: "sfd \<Rightarrow> real \<Rightarrow> sfd" where
  "estimated b extra =
     b\<lparr>net_leased_area := 0,
       u_number_of_heated_floors := heated_floors_of b,
       u_living_area_per_floor := net_leased_area b / heated_floors_of b,
       u_est_ground_floor_area :=
         est_bottom_building_closure b * (net_leased_area b / heated_floors_of b),
       u_top_floor_area :=
         Some (u_est_area_per_roof b * (net_leased_area b / heated_floors_of b)),
       u_est_roof_area :=
         (if roof_product_of b = 0
          then u_est_area_per_roof b * (net_leased_area b / heated_floors_of b)
          else roof_product_of b),
       u_est_facade_area := Some (facade_area_of b extra),
       u_est_win_area := est_factor_win_area b * net_leased_area b,
       u_est_cellar_wall_area :=
         est_factor_cellar_area b * u_est_factor_heated_cellar b * facade_area_of b extra,
       u_est_outer_wall_area :=
         heated_floors_of b * facade_area_of b extra
         - est_factor_cellar_area b * u_est_factor_heated_cellar b * facade_area_of b extra
         - est_factor_win_area b * net_leased_area b\<rparr>"


text \<open>
  The example of the specification (one floor, 120 m2, every configuration value 0), and
  a configuration in which layout, attic, cellar and dormer have no table entry.
\<close>

definition ex_args :: sfd_args where
  "ex_args =
     \<lparr>a_net_leased_area = 120, a_number_of_floors = 1, a_residential_layout = Some 0,
      a_neighbour_buildings = Some 0, a_attic = Some 0, a_cellar = Some 0, a_dormer = Some 0,
      a_outer_area = [], a_window_area = []\<rparr>"

definition ex_args_no_entry :: sfd_args where
  "ex_args_no_entry =
     \<lparr>a_net_leased_area = 120, a_number_of_floors = 1, a_residential_layout = Some 7,
      a_neighbour_buildings = Some 0, a_attic = Some 5, a_cellar = Some 9, a_dormer = Some 4,
      a_outer_area = [], a_window_area = []\<rparr>"

text \<open>
  Further example inputs: no floor at all; a dormer on a non heated attic; attic type 5.
\<close>

definition ex_args_no_floor :: sfd_args where
  "ex_args_no_floor = ex_args\<lparr>a_number_of_floors := 0\<rparr>"

definition ex_args_dormer :: sfd_args where
  "ex_args_dormer = ex_args\<lparr>a_attic := Some 1, a_dormer := Some 1\<rparr>"

definition ex_args_attic5 :: sfd_args where
  "ex_args_attic5 = ex_args\<lparr>a_attic := Some 5\<rparr>"

text \<open>
  Conditions on the collaborators: none of their calls raises a given error, and none of
  their calls raises at all. \<open>no_collaborators\<close> are collaborators that do nothing but
  add the area of each zone to \<^verbatim>\<open>net_leased_area\<close>.
\<close>

definition collaborators_never :: "'w collaborators \<Rightarrow> py_error \<Rightarrow> bool" where
  "collaborators_never ext err =
     ((\<forall>key area usage nf hf b w. c_thermal_zone ext key area usage nf hf b w \<noteq> Inl err)
      \<and> (\<forall>cls key tilt orientation b w. c_elements ext cls key tilt orientation b w \<noteq> Inl err)
      \<and> (\<forall>val key b w. c_set_outer_wall_area ext val key b w \<noteq> Inl err)
      \<and> (\<forall>val key b w. c_set_window_area ext val key b w \<noteq> Inl err)
      \<and> (\<forall>b w. c_zone_areas ext b w \<noteq> Inl err))"

definition collaborators_succeed :: "'w collaborators \<Rightarrow> bool" where
  "collaborators_succeed ext = (\<forall>err. collaborators_never ext err)"

definition no_collaborators :: "unit collaborators" where
  "no_collaborators =
     \<lparr>c_reset_thermal_zones = (\<lambda>w. w),
      c_thermal_zone = (\<lambda>key area usage nf hf b w. Inr (net_leased_area b + area, w)),
      c_elements = (\<lambda>cls key tilt orientation b w. Inr w),
      c_set_outer_wall_area = (\<lambda>val key b w. Inr w),
      c_set_window_area = (\<lambda>val key b w. Inr w),
      c_zone_areas = (\<lambda>b w. Inr w)\<rparr>"

section \<open>Facts about the resolver and the estimator\<close>

lemma bind_err_Inl: "bind_err (Inl err) f = Inl err"
  by (simp add: bind_err_def)

lemma bind_err_Inr: "bind_err (Inr x) f = f x"
  by (simp add: bind_err_def)

lemma loop_is_filter:
  "load_type_element_loop year construction dc cat rv e items =
     spec_apply_all dc rv e (filter (spec_matches cat year construction) items)"
proof (induction items arbitrary: e)
  case Nil
  show ?case by simp
next
  case (Cons it items)
  show ?case
  proof (cases it)
    case (Version v)
    with Cons show ?thesis by simp
  next
    case (Entry key r)
    show ?thesis
    proof (cases "spec_matches cat year construction it")
      case True
      with Entry Cons show ?thesis
        by (cases "set_basic_data e r")
           (auto simp: spec_apply_def layer_items_def bind_err_def split: sum.splits)
    next
      case False
      with Entry Cons show ?thesis by auto
    qed
  qed
qed

lemma load_type_element_filter:
  "load_type_element e year technique dc element_type rv =
     spec_apply_all dc rv e
       (filter (spec_matches (spec_category e element_type) year technique) (element_bind dc))"
  by (simp add: load_type_element_def spec_category_def loop_is_filter)

lemma set_basic_data_layers: "set_basic_data e r = Inr e1 \<Longrightarrow> layers e1 = layers e"
  unfolding set_basic_data_def Let_def getitem_def bind_err_def
  by (simp split: if_splits option.splits) force+

lemma load_material_id_present:
  "mid \<in> fst ` set mb \<Longrightarrow> \<exists>m. load_material_id mid mb = Inr m \<and> material_id m = mid"
  by (induction mid mb rule: load_material_id.induct) auto

lemma load_layers_present:
  "\<forall>p \<in> set ls. in_material_id (snd p) \<in> fst ` set (material_bind dc) \<Longrightarrow>
   \<exists>news. load_layers dc e ls = Inr (e\<lparr>layers := layers e @ news\<rparr>)
          \<and> map layer_view news = map layer_in_view ls"
proof (induction ls arbitrary: e)
  case Nil
  show ?case by simp
next
  case (Cons p ls)
  obtain i l where p: "p = (i, l)" by (cases p)
  from Cons.prems p have "in_material_id l \<in> fst ` set (material_bind dc)" by simp
  from load_material_id_present [OF this]
  obtain m where m: "load_material_id (in_material_id l) (material_bind dc) = Inr m"
    and mid: "material_id m = in_material_id l" by blast
  define new where "new = \<lparr>layer_id = i, thickness = in_thickness l, layer_material = m\<rparr>"
  define e0 where "e0 = e\<lparr>layers := layers e @ [new]\<rparr>"
  from Cons.prems have "\<forall>p \<in> set ls. in_material_id (snd p) \<in> fst ` set (material_bind dc)"
    by simp
  from Cons.IH [OF this, of e0] obtain news where
    n: "load_layers dc e0 ls = Inr (e0\<lparr>layers := layers e0 @ news\<rparr>)"
    and v: "map layer_view news = map layer_in_view ls" by blast
  have "load_layers dc e (p # ls) = load_layers dc e0 ls"
    using p m by (simp add: bind_err_Inr new_def e0_def)
  also have "\<dots> = Inr (e\<lparr>layers := layers e @ (new # news)\<rparr>)"
    using n by (simp add: e0_def)
  finally have 1: "load_layers dc e (p # ls) = Inr (e\<lparr>layers := layers e @ (new # news)\<rparr>)" .
  have 2: "map layer_view (new # news) = map layer_in_view (p # ls)"
    using p mid v by (simp add: layer_view_def layer_in_view_def new_def)
  from 1 2 show ?case by blast
qed

lemma spec_apply_present:
  assumes "set_basic_data e r = Inr e1"
    and "\<forall>p \<in> set (in_layer r). in_material_id (snd p) \<in> fst ` set (material_bind dc)"
  shows "\<exists>news. spec_apply dc rv e r = Inr (e1\<lparr>layers := layers e @ news\<rparr>)
          \<and> map layer_view news = map layer_in_view (if rv then rev (in_layer r) else in_layer r)"
proof -
  let ?ls = "if rv then rev (in_layer r) else in_layer r"
  from assms(2) have "\<forall>p \<in> set ?ls. in_material_id (snd p) \<in> fst ` set (material_bind dc)"
    by simp
  from load_layers_present [OF this, of e1] obtain news where
    "load_layers dc e1 ?ls = Inr (e1\<lparr>layers := layers e1 @ news\<rparr>)"
    "map layer_view news = map layer_in_view ?ls" by blast
  with assms(1) have "spec_apply dc rv e r = Inr (e1\<lparr>layers := layers e @ news\<rparr>)
      \<and> map layer_view news = map layer_in_view ?ls"
    by (simp add: spec_apply_def set_basic_data_layers bind_err_Inr)
  then show ?thesis by blast
qed

lemma bind_lookup_absent:
  "key_str \<notin> item_key ` set items \<Longrightarrow> bind_lookup items key_str = Inl (KeyError key_str)"
  by (induction items) auto

lemma bind_lookup_present:
  "distinct (map item_key items) \<Longrightarrow> it \<in> set items \<Longrightarrow> bind_lookup items (item_key it) = Inr it"
  by (induction items) (auto simp: rev_image_eqI)

lemma by_key_entry:
  "bind_lookup (element_bind dc) key_str = Inr (Entry k r) \<Longrightarrow>
   load_type_element_by_key e key_str dc rv = spec_apply dc rv e r"
  by (simp add: load_type_element_by_key_def spec_apply_def layer_items_def bind_err_Inr)

lemma load_layers_result:
  "load_layers dc e ls = Inr e' \<Longrightarrow> \<exists>news. e' = e\<lparr>layers := layers e @ news\<rparr>"
proof (induction ls arbitrary: e)
  case Nil
  then have "e' = e\<lparr>layers := layers e @ []\<rparr>" by simp
  then show ?case by blast
next
  case (Cons p ls)
  obtain i l where p: "p = (i, l)" by (cases p)
  show ?case
  proof (cases "load_material_id (in_material_id l) (material_bind dc)")
    case (Inl err)
    with Cons.prems p show ?thesis by (simp add: bind_err_Inl)
  next
    case (Inr m)
    define e0 where
      "e0 = e\<lparr>layers := layers e @ [\<lparr>layer_id = i, thickness = in_thickness l, layer_material = m\<rparr>]\<rparr>"
    from Cons.prems p Inr have "load_layers dc e0 ls = Inr e'"
      by (simp add: bind_err_Inr e0_def)
    from Cons.IH [OF this] obtain news where "e' = e0\<lparr>layers := layers e0 @ news\<rparr>" by blast
    then have "e' = e\<lparr>layers := layers e @
        (\<lparr>layer_id = i, thickness = in_thickness l, layer_material = m\<rparr> # news)\<rparr>"
      by (simp add: e0_def)
    then show ?thesis by blast
  qed
qed

lemma set_basic_data_missing_outer_radiation:
  "type_name e \<in> {''OuterWall'', ''Rooftop'', ''Door'', ''Window''} \<Longrightarrow>
   in_outer_radiation r = None \<Longrightarrow>
   set_basic_data e r = Inl (KeyError ''outer_radiation'')"
  by (auto simp: set_basic_data_def Let_def getitem_def bind_err_def)

lemma set_basic_data_opaque:
  "type_name e \<in> {''OuterWall'', ''Rooftop'', ''Door''} \<Longrightarrow> set_basic_data e r = Inr e1 \<Longrightarrow>
   outer_radiation e1 = in_outer_radiation r \<and> outer_convection e1 = in_outer_convection r"
  unfolding set_basic_data_def Let_def getitem_def bind_err_def
  by (simp split: if_splits option.splits) force+

lemma set_basic_data_generic:
  "type_name e \<notin> {''OuterWall'', ''Rooftop'', ''Door'', ''Window''} \<Longrightarrow>
   set_basic_data e r = Inr e1 \<Longrightarrow>
   outer_radiation e1 = outer_radiation e \<and> outer_convection e1 = outer_convection e"
  unfolding set_basic_data_def Let_def getitem_def bind_err_def
  by (simp split: if_splits option.splits) force+

lemma spec_apply_coefficients:
  assumes "spec_apply dc rv e r = Inr e'"
  shows "\<exists>e1. set_basic_data e r = Inr e1 \<and> outer_radiation e' = outer_radiation e1
              \<and> outer_convection e' = outer_convection e1"
proof (cases "set_basic_data e r")
  case (Inl err)
  with assms show ?thesis by (simp add: spec_apply_def bind_err_Inl)
next
  case (Inr e1)
  with assms have "load_layers dc e1 (if rv then rev (in_layer r) else in_layer r) = Inr e'"
    by (simp add: spec_apply_def bind_err_Inr)
  from load_layers_result [OF this] obtain news where "e' = e1\<lparr>layers := layers e1 @ news\<rparr>"
    by blast
  with Inr show ?thesis by simp
qed

lemma spec_apply_all_first_error:
  "spec_apply dc rv e r = Inl err \<Longrightarrow> spec_apply_all dc rv e (Entry k r # rest) = Inl err"
  by (simp add: bind_err_Inl)

lemmas ex_defs = ex_data_def ex_outer_record_def ex_inner_record_def new_element_def

lemma init_neighbour_eq:
  "init_neighbour b =
     b\<lparr>u_est_factor_neighbour :=
          (if neighbour_buildings b = 0 then Some 0 else if neighbour_buildings b = 1 then Some 1
           else if neighbour_buildings b = 2 then Some 2 else u_est_factor_neighbour b),
       u_est_extra_floor_area :=
          (if neighbour_buildings b = 0 then Some 50 else if neighbour_buildings b = 1 then Some 30
           else if neighbour_buildings b = 2 then Some 10 else u_est_extra_floor_area b)\<rparr>"
  by (simp add: init_neighbour_def)

lemma init_layout_eq:
  "init_layout b =
     b\<lparr>u_est_facade_to_floor_area :=
          (if residential_layout b = 0 then 0.66 else if residential_layout b = 1 then 0.8 else 0)\<rparr>"
  by (simp add: init_layout_def Let_def)

lemma init_attic_eq:
  "init_attic b =
     b\<lparr>u_est_factor_heated_attic :=
          (if attic b = 2 then 0.5 else if attic b = 3 then 1 else 0),
       u_est_area_per_floor :=
          (if attic b = 0 then 1.33 else if attic b = 1 then 0 else if attic b = 2 then 0.75
           else if attic b = 3 then 1.5 else 0),
       u_est_area_per_roof :=
          (if attic b = 1 then 1.33 else if attic b = 2 then 0.67 else 0)\<rparr>"
  by (simp add: init_attic_def Let_def)

lemma init_cellar_eq:
  "init_cellar b =
     b\<lparr>u_est_factor_heated_cellar :=
          (if cellar b = 2 then 0.5 else if cellar b = 3 then 1 else 0)\<rparr>"
  by (simp add: init_cellar_def Let_def)

lemma init_dormer_eq:
  "init_dormer b =
     b\<lparr>u_est_factor_dormer := (if dormer b = 0 then 1 else if dormer b = 1 then 1.3 else 0)\<rparr>"
  by (simp add: init_dormer_def Let_def)

lemma bind_err_eq_Inr:
  "(bind_err m f = Inr y) = (\<exists>x. m = Inr x \<and> f x = Inr y)"
  by (cases m) (simp_all add: bind_err_def)

lemma getattr_eq_Inr: "(getattr field k = Inr v) = (field = Some v)"
  by (cases field) (simp_all add: getattr_def)

lemma bind_err_neq_Inl:
  assumes "m \<noteq> Inl err" and "\<And>x. m = Inr x \<Longrightarrow> f x \<noteq> Inl err"
  shows "bind_err m f \<noteq> Inl err"
  using assms by (cases m) (simp_all add: bind_err_def)

lemma not_Inl_is_Inr: "(\<And>err. m \<noteq> Inl err) \<Longrightarrow> \<exists>x. m = Inr x"
  by (cases m) auto

lemma map_of_dict_set: "map_of (dict_set d k v) = (map_of d)(k \<mapsto> v)"
  by (induction d) auto

lemma zone_loop_fields:
  "zone_loop ext t b w zs = Inr (b', w') \<Longrightarrow> b' = b\<lparr>net_leased_area := net_leased_area b'\<rparr>"
proof (induction zs arbitrary: b w)
  case Nil
  then show ?case by simp
next
  case (Cons z zs)
  obtain key factor usage nf hf where z: "z = (key, factor, usage, nf, hf)" by (cases z)
  from Cons.prems z obtain area w1 where
    "zone_loop ext t (b\<lparr>net_leased_area := area\<rparr>) w1 zs = Inr (b', w')"
    by (auto simp: bind_err_eq_Inr)
  from Cons.IH [OF this]
  have "b' = b\<lparr>net_leased_area := area\<rparr>\<lparr>net_leased_area := net_leased_area b'\<rparr>" .
  then show ?case by simp
qed

lemma outer_wall_loop_fields:
  "outer_wall_loop ext b w ns = Inr (b', w') \<Longrightarrow> b' = b\<lparr>outer_area := outer_area b'\<rparr>"
proof (induction ns arbitrary: b w)
  case Nil
  then show ?case by simp
next
  case (Cons n ns)
  obtain key tilt orientation where n: "n = (key, tilt, orientation)" by (cases n)
  show ?case
  proof (cases "orientation = 0 \<or> orientation = 180 \<or> orientation = 90 \<or> orientation = 270")
    case True
    with Cons.prems n obtain a w1 where
      "outer_wall_loop ext (b\<lparr>outer_area := dict_set (outer_area b) orientation a\<rparr>) w1 ns
         = Inr (b', w')"
      by (auto simp: bind_err_eq_Inr split: if_splits)
    from Cons.IH [OF this]
    have "b' = b\<lparr>outer_area := dict_set (outer_area b) orientation a\<rparr>
         \<lparr>outer_area := outer_area b'\<rparr>" .
    then show ?thesis by simp
  next
    case False
    with Cons.prems n obtain w1 where "outer_wall_loop ext b w1 ns = Inr (b', w')"
      by (auto simp: bind_err_eq_Inr)
    from Cons.IH [OF this] show ?thesis .
  qed
qed

lemma window_loop_fields:
  "window_loop ext b w ns = Inr (b', w') \<Longrightarrow> b' = b\<lparr>window_area := window_area b'\<rparr>"
proof (induction ns arbitrary: b w)
  case Nil
  then show ?case by simp
next
  case (Cons n ns)
  obtain key tilt orientation where n: "n = (key, tilt, orientation)" by (cases n)
  show ?case
  proof (cases "orientation = 0 \<or> orientation = 180 \<or> orientation = 90 \<or> orientation = 270")
    case True
    with Cons.prems n obtain a w1 where
      "window_loop ext (b\<lparr>window_area := dict_set (window_area b) orientation a\<rparr>) w1 ns
         = Inr (b', w')"
      by (auto simp: bind_err_eq_Inr split: if_splits)
    from Cons.IH [OF this]
    have "b' = b\<lparr>window_area := dict_set (window_area b) orientation a\<rparr>
         \<lparr>window_area := window_area b'\<rparr>" .
    then show ?thesis by simp
  next
    case False
    with Cons.prems n obtain w1 where "window_loop ext b w1 ns = Inr (b', w')"
      by (auto simp: bind_err_eq_Inr)
    from Cons.IH [OF this] show ?thesis .
  qed
qed

lemma roof_loop_fields:
  "roof_loop ext b w ns = Inr (b', w') \<Longrightarrow> b' = b\<lparr>outer_area := outer_area b'\<rparr>"
proof (induction ns arbitrary: b w)
  case Nil
  then show ?case by simp
next
  case (Cons n ns)
  obtain key tilt orientation where n: "n = (key, tilt, orientation)" by (cases n)
  from Cons.prems n obtain w1 where
    "roof_loop ext (b\<lparr>outer_area := dict_set (outer_area b) orientation (u_est_roof_area b)\<rparr>)
       w1 ns = Inr (b', w')"
    by (auto simp: bind_err_eq_Inr Let_def)
  from Cons.IH [OF this]
  have "b' = b\<lparr>outer_area := dict_set (outer_area b) orientation (u_est_roof_area b)\<rparr>
       \<lparr>outer_area := outer_area b'\<rparr>" .
  then show ?case by simp
qed

lemma ground_floor_loop_fields:
  "ground_floor_loop ext b w ns = Inr (b', w') \<Longrightarrow> b' = b\<lparr>outer_area := outer_area b'\<rparr>"
proof (induction ns arbitrary: b w)
  case Nil
  then show ?case by simp
next
  case (Cons n ns)
  obtain key tilt orientation where n: "n = (key, tilt, orientation)" by (cases n)
  from Cons.prems n obtain w1 where
    "ground_floor_loop ext
       (b\<lparr>outer_area := dict_set (outer_area b) orientation (u_est_ground_floor_area b)\<rparr>)
       w1 ns = Inr (b', w')"
    by (auto simp: bind_err_eq_Inr Let_def)
  from Cons.IH [OF this]
  have "b' = b\<lparr>outer_area := dict_set (outer_area b) orientation (u_est_ground_floor_area b)\<rparr>
       \<lparr>outer_area := outer_area b'\<rparr>" .
  then show ?case by simp
qed

lemma generate_elements_steps:
  assumes "generate_elements ext t b w = Inr (g, w')"
  shows "\<exists>b1 w1 b2 w2 b3 w3 b4 w4 w5.
           zone_loop ext t b w (zone_area_factors b) = Inr (b1, w1)
         \<and> outer_wall_loop ext b1 w1 (outer_wall_names b1) = Inr (b2, w2)
         \<and> window_loop ext b2 w2 (window_names b2) = Inr (b3, w3)
         \<and> roof_loop ext b3 w3 (roof_names b3) = Inr (b4, w4)
         \<and> ground_floor_loop ext b4 w4 (ground_floor_names b4) = Inr (g, w5)"
  using assms by (auto simp: generate_elements_def bind_err_eq_Inr)

lemma generate_elements_Inr:
  assumes "generate_elements ext t b w = Inr (g, w')"
  shows "g = b\<lparr>net_leased_area := net_leased_area g, window_area := window_area g,
               outer_area := outer_area g\<rparr>"
proof -
  from generate_elements_steps [OF assms] obtain b1 w1 b2 w2 b3 w3 b4 w4 w5 where
    1: "zone_loop ext t b w (zone_area_factors b) = Inr (b1, w1)"
    and 2: "outer_wall_loop ext b1 w1 (outer_wall_names b1) = Inr (b2, w2)"
    and 3: "window_loop ext b2 w2 (window_names b2) = Inr (b3, w3)"
    and 4: "roof_loop ext b3 w3 (roof_names b3) = Inr (b4, w4)"
    and 5: "ground_floor_loop ext b4 w4 (ground_floor_names b4) = Inr (g, w5)"
    by blast
  note a = zone_loop_fields [OF 1] outer_wall_loop_fields [OF 2] window_loop_fields [OF 3]
    roof_loop_fields [OF 4] ground_floor_loop_fields [OF 5]
  have "g = b\<lparr>net_leased_area := net_leased_area b1\<rparr>\<lparr>outer_area := outer_area b2\<rparr>
              \<lparr>window_area := window_area b3\<rparr>\<lparr>outer_area := outer_area b4\<rparr>
              \<lparr>outer_area := outer_area g\<rparr>"
    using a by metis
  then have e: "g = b\<lparr>net_leased_area := net_leased_area b1, window_area := window_area b3,
                       outer_area := outer_area g\<rparr>"
    by simp
  from e have "net_leased_area g
      = net_leased_area (b\<lparr>net_leased_area := net_leased_area b1,
          window_area := window_area b3, outer_area := outer_area g\<rparr>)"
    by (rule arg_cong)
  then have n: "net_leased_area g = net_leased_area b1" by simp
  from e have "window_area g
      = window_area (b\<lparr>net_leased_area := net_leased_area b1,
          window_area := window_area b3, outer_area := outer_area g\<rparr>)"
    by (rule arg_cong)
  then have v: "window_area g = window_area b3" by simp
  from e show ?thesis unfolding n v .
qed

lemma collaborators_neverD:
  assumes "collaborators_never ext err"
  shows "c_thermal_zone ext key area usage nf hf b w \<noteq> Inl err"
    and "c_elements ext cls key tilt orientation b w \<noteq> Inl err"
    and "c_set_outer_wall_area ext val k b w \<noteq> Inl err"
    and "c_set_window_area ext val k b w \<noteq> Inl err"
    and "c_zone_areas ext b w \<noteq> Inl err"
  using assms by (simp_all add: collaborators_never_def)

lemma zone_loop_never:
  assumes "collaborators_never ext err"
  shows "zone_loop ext t b w zs \<noteq> Inl err"
proof (induction zs arbitrary: b w)
  case Nil
  show ?case by simp
next
  case (Cons z zs)
  obtain key factor usage nf hf where z: "z = (key, factor, usage, nf, hf)" by (cases z)
  show ?case
    unfolding z zone_loop.simps
    by (rule bind_err_neq_Inl) (auto simp: collaborators_neverD(1) [OF assms] Cons.IH)
qed

lemma element_loop_never:
  assumes "collaborators_never ext err"
  shows "element_loop ext cls b ns w \<noteq> Inl err"
proof (induction ns arbitrary: w)
  case Nil
  show ?case by simp
next
  case (Cons n ns)
  obtain key tilt orientation where n: "n = (key, tilt, orientation)" by (cases n)
  show ?case
    unfolding n element_loop.simps
    by (rule bind_err_neq_Inl) (auto simp: collaborators_neverD(2) [OF assms] Cons.IH)
qed

lemma area_loop_never:
  assumes "\<And>val key b w. set_area val key b w \<noteq> Inl err"
  shows "area_loop set_area b xs w \<noteq> Inl err"
proof (induction xs arbitrary: w)
  case Nil
  show ?case by simp
next
  case (Cons x xs)
  obtain key val where x: "x = (key, val)" by (cases x)
  show ?case
    unfolding x area_loop.simps
    by (rule bind_err_neq_Inl) (auto simp: assms Cons.IH)
qed

lemma roof_loop_never:
  assumes "collaborators_never ext err"
  shows "roof_loop ext b w ns \<noteq> Inl err"
proof (induction ns arbitrary: b w)
  case Nil
  show ?case by simp
next
  case (Cons n ns)
  obtain key tilt orientation where n: "n = (key, tilt, orientation)" by (cases n)
  show ?case
    unfolding n roof_loop.simps Let_def
    by (rule bind_err_neq_Inl) (auto simp: collaborators_neverD(2) [OF assms] Cons.IH)
qed

lemma ground_floor_loop_never:
  assumes "collaborators_never ext err"
  shows "ground_floor_loop ext b w ns \<noteq> Inl err"
proof (induction ns arbitrary: b w)
  case Nil
  show ?case by simp
next
  case (Cons n ns)
  obtain key tilt orientation where n: "n = (key, tilt, orientation)" by (cases n)
  show ?case
    unfolding n ground_floor_loop.simps Let_def
    by (rule bind_err_neq_Inl) (auto simp: collaborators_neverD(2) [OF assms] Cons.IH)
qed

lemma outer_wall_loop_never:
  assumes "collaborators_never ext err"
  shows "nr_of_orientation b \<noteq> 0 \<Longrightarrow> outer_wall_loop ext b w ns \<noteq> Inl err"
proof (induction ns arbitrary: b w)
  case Nil
  show ?case by simp
next
  case (Cons n ns)
  obtain key tilt orientation where n: "n = (key, tilt, orientation)" by (cases n)
  show ?case
    unfolding n outer_wall_loop.simps
  proof (rule bind_err_neq_Inl)
    show "(if orientation = 0 \<or> orientation = 180.0
           then bind_err (py_truediv (u_est_outer_wall_area b) (real (nr_of_orientation b)))
                  (\<lambda>a. Inr (b\<lparr>outer_area := dict_set (outer_area b) orientation a\<rparr>))
           else if orientation = 90 \<or> orientation = 270
           then bind_err (py_truediv (u_est_outer_wall_area b) (real (nr_of_orientation b)))
                  (\<lambda>a. Inr (b\<lparr>outer_area := dict_set (outer_area b) orientation a\<rparr>))
           else Inr b) \<noteq> Inl err"
      using Cons.prems by (simp add: py_truediv_def bind_err_Inr)
  next
    fix b1
    assume "(if orientation = 0 \<or> orientation = 180.0
           then bind_err (py_truediv (u_est_outer_wall_area b) (real (nr_of_orientation b)))
                  (\<lambda>a. Inr (b\<lparr>outer_area := dict_set (outer_area b) orientation a\<rparr>))
           else if orientation = 90 \<or> orientation = 270
           then bind_err (py_truediv (u_est_outer_wall_area b) (real (nr_of_orientation b)))
                  (\<lambda>a. Inr (b\<lparr>outer_area := dict_set (outer_area b) orientation a\<rparr>))
           else Inr b) = Inr b1"
    with Cons.prems have "nr_of_orientation b1 \<noteq> 0"
      by (auto simp: py_truediv_def bind_err_Inr split: if_splits)
    then show "bind_err (c_elements ext ''OuterWall'' key tilt orientation b1 w)
                 (\<lambda>w1. outer_wall_loop ext b1 w1 ns) \<noteq> Inl err"
      by (intro bind_err_neq_Inl) (auto simp: collaborators_neverD(2) [OF assms] Cons.IH)
  qed
qed

lemma window_loop_never:
  assumes "collaborators_never ext err"
  shows "nr_of_orientation b \<noteq> 0 \<Longrightarrow> window_loop ext b w ns \<noteq> Inl err"
proof (induction ns arbitrary: b w)
  case Nil
  show ?case by simp
next
  case (Cons n ns)
  obtain key tilt orientation where n: "n = (key, tilt, orientation)" by (cases n)
  show ?case
    unfolding n window_loop.simps
  proof (rule bind_err_neq_Inl)
    show "(if orientation = 0 \<or> orientation = 180
           then bind_err (py_truediv (u_est_win_area b) (real (nr_of_orientation b)))
                  (\<lambda>a. Inr (b\<lparr>window_area := dict_set (window_area b) orientation a\<rparr>))
           else if orientation = 90 \<or> orientation = 270
           then bind_err (py_truediv (u_est_win_area b) (real (nr_of_orientation b)))
                  (\<lambda>a. Inr (b\<lparr>window_area := dict_set (window_area b) orientation a\<rparr>))
           else Inr b) \<noteq> Inl err"
      using Cons.prems by (simp add: py_truediv_def bind_err_Inr)
  next
    fix b1
    assume "(if orientation = 0 \<or> orientation = 180
           then bind_err (py_truediv (u_est_win_area b) (real (nr_of_orientation b)))
                  (\<lambda>a. Inr (b\<lparr>window_area := dict_set (window_area b) orientation a\<rparr>))
           else if orientation = 90 \<or> orientation = 270
           then bind_err (py_truediv (u_est_win_area b) (real (nr_of_orientation b)))
                  (\<lambda>a. Inr (b\<lparr>window_area := dict_set (window_area b) orientation a\<rparr>))
           else Inr b) = Inr b1"
    with Cons.prems have "nr_of_orientation b1 \<noteq> 0"
      by (auto simp: py_truediv_def bind_err_Inr split: if_splits)
    then show "bind_err (c_elements ext ''Window'' key tilt orientation b1 w)
                 (\<lambda>w1. window_loop ext b1 w1 ns) \<noteq> Inl err"
      by (intro bind_err_neq_Inl) (auto simp: collaborators_neverD(2) [OF assms] Cons.IH)
  qed
qed

lemma bind_err_eq_Inl:
  "(bind_err m f = Inl err) = (m = Inl err \<or> (\<exists>x. m = Inr x \<and> f x = Inl err))"
  by (cases m) (simp_all add: bind_err_def)

lemma generate_elements_never:
  assumes c: "collaborators_never ext err" and n: "nr_of_orientation b \<noteq> 0"
  shows "generate_elements ext t b w \<noteq> Inl err"
proof
  assume a: "generate_elements ext t b w = Inl err"
  have s1: "area_loop (c_set_outer_wall_area ext) b' xs w' \<noteq> Inl err" for b' xs w'
    by (rule area_loop_never) (rule collaborators_neverD(3) [OF c])
  have s2: "area_loop (c_set_window_area ext) b' xs w' \<noteq> Inl err" for b' xs w'
    by (rule area_loop_never) (rule collaborators_neverD(4) [OF c])
  note nv = zone_loop_never [OF c] roof_loop_never [OF c] ground_floor_loop_never [OF c]
    element_loop_never [OF c] s1 s2 collaborators_neverD(5) [OF c]
  from a have "\<exists>b1 w1. zone_loop ext t b w (zone_area_factors b) = Inr (b1, w1)
      \<and> (outer_wall_loop ext b1 w1 (outer_wall_names b1) = Inl err
         \<or> (\<exists>b2 w2. outer_wall_loop ext b1 w1 (outer_wall_names b1) = Inr (b2, w2)
              \<and> window_loop ext b2 w2 (window_names b2) = Inl err))"
    by (auto simp: generate_elements_def bind_err_eq_Inl nv split: if_splits)
  then obtain b1 w1 where
    1: "zone_loop ext t b w (zone_area_factors b) = Inr (b1, w1)"
    and 2: "outer_wall_loop ext b1 w1 (outer_wall_names b1) = Inl err
         \<or> (\<exists>b2 w2. outer_wall_loop ext b1 w1 (outer_wall_names b1) = Inr (b2, w2)
              \<and> window_loop ext b2 w2 (window_names b2) = Inl err)"
    by blast
  from zone_loop_fields [OF 1] have "b1 = b\<lparr>net_leased_area := net_leased_area b1\<rparr>" .
  then have "nr_of_orientation b1 = nr_of_orientation (b\<lparr>net_leased_area := net_leased_area b1\<rparr>)"
    by (rule arg_cong)
  with n have n1: "nr_of_orientation b1 \<noteq> 0" by simp
  from 2 outer_wall_loop_never [OF c n1] obtain b2 w2 where
    3: "outer_wall_loop ext b1 w1 (outer_wall_names b1) = Inr (b2, w2)"
    and 4: "window_loop ext b2 w2 (window_names b2) = Inl err"
    by blast
  from outer_wall_loop_fields [OF 3] have "b2 = b1\<lparr>outer_area := outer_area b2\<rparr>" .
  then have "nr_of_orientation b2 = nr_of_orientation (b1\<lparr>outer_area := outer_area b2\<rparr>)"
    by (rule arg_cong)
  with n1 have "nr_of_orientation b2 \<noteq> 0" by simp
  from window_loop_never [OF c this] 4 show False by blast
qed

lemma roof_fallback_update:
  "(if c then b\<lparr>u_est_roof_area := v\<rparr> else b)
     = b\<lparr>u_est_roof_area := (if c then v else u_est_roof_area b)\<rparr>"
  by simp

lemma generate_archetype_eq:
  "generate_archetype ext b w =
     (if heated_floors_of b = 0 then Inl ZeroDivisionError
      else bind_err (getattr (u_est_extra_floor_area b) ''_est_extra_floor_area'') (\<lambda>extra.
             generate_elements ext (net_leased_area b) (estimated b extra)
               (c_reset_thermal_zones ext w)))"
proof (cases "heated_floors_of b = 0")
  case True
  then show ?thesis
    by (simp add: generate_archetype_def py_truediv_def heated_floors_of_def bind_err_Inl
          del: Let_def split del: if_split)
next
  case False
  then show ?thesis
    by (simp add: generate_archetype_def Let_def py_truediv_def heated_floors_of_def
          estimated_def roof_product_of_def facade_area_of_def roof_fallback_update bind_err_Inr
          split del: if_split cong: if_cong)
qed

lemma estimated_unchanged:
  "nr_of_orientation (estimated b extra) = nr_of_orientation b"
  "outer_wall_names (estimated b extra) = outer_wall_names b"
  "window_names (estimated b extra) = window_names b"
  "roof_names (estimated b extra) = roof_names b"
  "ground_floor_names (estimated b extra) = ground_floor_names b"
  "outer_area (estimated b extra) = outer_area b"
  "window_area (estimated b extra) = window_area b"
  "u_est_factor_heated_cellar (estimated b extra) = u_est_factor_heated_cellar b"
  "u_est_factor_heated_attic (estimated b extra) = u_est_factor_heated_attic b"
  "u_est_factor_dormer (estimated b extra) = u_est_factor_dormer b"
  "u_est_area_per_floor (estimated b extra) = u_est_area_per_floor b"
  "u_est_area_per_roof (estimated b extra) = u_est_area_per_roof b"
  "zone_area_factors (estimated b extra) = zone_area_factors b"
  by (simp_all add: estimated_def)

lemma estimated_computed:
  "u_number_of_heated_floors (estimated b extra) = heated_floors_of b"
  "u_living_area_per_floor (estimated b extra) = net_leased_area b / heated_floors_of b"
  "u_est_ground_floor_area (estimated b extra)
     = est_bottom_building_closure b * (net_leased_area b / heated_floors_of b)"
  "u_est_roof_area (estimated b extra)
     = (if roof_product_of b = 0
        then u_est_area_per_roof b * (net_leased_area b / heated_floors_of b)
        else roof_product_of b)"
  "u_est_win_area (estimated b extra) = est_factor_win_area b * net_leased_area b"
  "u_est_outer_wall_area (estimated b extra)
     = heated_floors_of b * facade_area_of b extra
       - est_factor_cellar_area b * u_est_factor_heated_cellar b * facade_area_of b extra
       - est_factor_win_area b * net_leased_area b"
  by (simp_all add: estimated_def split del: if_split cong: if_cong)

lemma generate_archetype_Inr:
  assumes "generate_archetype ext b w = Inr (g, w')"
  shows "heated_floors_of b \<noteq> 0
     \<and> (\<exists>extra. u_est_extra_floor_area b = Some extra
           \<and> generate_elements ext (net_leased_area b) (estimated b extra)
                (c_reset_thermal_zones ext w) = Inr (g, w')
           \<and> g = (estimated b extra)\<lparr>net_leased_area := net_leased_area g,
                    window_area := window_area g, outer_area := outer_area g\<rparr>)"
proof -
  from assms have h: "heated_floors_of b \<noteq> 0"
    by (auto simp: generate_archetype_eq)
  with assms have
    "bind_err (getattr (u_est_extra_floor_area b) ''_est_extra_floor_area'') (\<lambda>extra.
       generate_elements ext (net_leased_area b) (estimated b extra)
         (c_reset_thermal_zones ext w)) = Inr (g, w')"
    by (simp add: generate_archetype_eq)
  then obtain extra where
    x: "u_est_extra_floor_area b = Some extra"
    and 1: "generate_elements ext (net_leased_area b) (estimated b extra)
              (c_reset_thermal_zones ext w) = Inr (g, w')"
    unfolding bind_err_eq_Inr getattr_eq_Inr by auto
  from h x 1 generate_elements_Inr [OF 1] show ?thesis by blast
qed

lemma generate_archetype_fields:
  assumes "generate_archetype ext b w = Inr (g, w')"
  shows "u_number_of_heated_floors g = heated_floors_of b"
    and "u_living_area_per_floor g = net_leased_area b / heated_floors_of b"
    and "u_est_roof_area g
         = (if roof_product_of b = 0
            then u_est_area_per_roof b * (net_leased_area b / heated_floors_of b)
            else roof_product_of b)"
    and "u_est_factor_heated_cellar g = u_est_factor_heated_cellar b"
    and "u_est_factor_heated_attic g = u_est_factor_heated_attic b"
    and "u_est_win_area g = est_factor_win_area b * net_leased_area b"
proof -
  from generate_archetype_Inr [OF assms] obtain extra where
    g: "g = (estimated b extra)\<lparr>net_leased_area := net_leased_area g,
              window_area := window_area g, outer_area := outer_area g\<rparr>"
    by blast
  show "u_number_of_heated_floors g = heated_floors_of b"
    by (subst g) (simp add: estimated_computed)
  show "u_living_area_per_floor g = net_leased_area b / heated_floors_of b"
    by (subst g) (simp add: estimated_computed)
  show "u_est_roof_area g
         = (if roof_product_of b = 0
            then u_est_area_per_roof b * (net_leased_area b / heated_floors_of b)
            else roof_product_of b)"
    by (subst g) (simp add: estimated_computed)
  show "u_est_factor_heated_cellar g = u_est_factor_heated_cellar b"
    by (subst g) (simp add: estimated_unchanged)
  show "u_est_factor_heated_attic g = u_est_factor_heated_attic b"
    by (subst g) (simp add: estimated_unchanged)
  show "u_est_win_area g = est_factor_win_area b * net_leased_area b"
    by (subst g) (simp add: estimated_computed)
qed

lemma generate_archetype_never:
  assumes "collaborators_never ext err" and "nr_of_orientation b \<noteq> 0"
    and "heated_floors_of b \<noteq> 0" and "u_est_extra_floor_area b = Some extra"
  shows "generate_archetype ext b w \<noteq> Inl err"
proof -
  from assms(2) have "nr_of_orientation (estimated b extra) \<noteq> 0"
    by (simp add: estimated_unchanged)
  from generate_elements_never [OF assms(1) this] assms(3,4) show ?thesis
    by (simp add: generate_archetype_eq getattr_def bind_err_Inr)
qed

lemma generate_archetype_total:
  assumes "collaborators_succeed ext" and "nr_of_orientation b \<noteq> 0"
    and "heated_floors_of b \<noteq> 0" and "u_est_extra_floor_area b = Some extra"
  shows "\<exists>g w'. generate_archetype ext b w = Inr (g, w')"
proof -
  have "generate_archetype ext b w \<noteq> Inl err" for err
  proof -
    from assms(1) have "collaborators_never ext err" by (simp add: collaborators_succeed_def)
    from generate_archetype_never [OF this assms(2,3,4)] show ?thesis .
  qed
  from not_Inl_is_Inr [of "generate_archetype ext b w", OF this] show ?thesis by auto
qed

lemma generate_archetype_not_zero_division:
  assumes "collaborators_never ext ZeroDivisionError"
    and "heated_floors_of b \<noteq> 0" and "nr_of_orientation b \<noteq> 0"
  shows "generate_archetype ext b w \<noteq> Inl ZeroDivisionError"
proof (cases "u_est_extra_floor_area b")
  case None
  with assms(2) show ?thesis
    by (simp add: generate_archetype_eq getattr_def bind_err_Inl)
next
  case (Some extra)
  from generate_archetype_never [OF assms(1,3,2) Some] show ?thesis .
qed

lemmas init_eqs = SingleFamilyDwelling_def init_dormer_eq init_cellar_eq init_attic_eq
  init_layout_eq init_neighbour_eq init_attributes_def

lemma init_config:
  "number_of_floors (SingleFamilyDwelling args) = a_number_of_floors args"
  "net_leased_area (SingleFamilyDwelling args) = a_net_leased_area args"
  "residential_layout (SingleFamilyDwelling args) = config_setter (a_residential_layout args)"
  "neighbour_buildings (SingleFamilyDwelling args) = config_setter (a_neighbour_buildings args)"
  "attic (SingleFamilyDwelling args) = config_setter (a_attic args)"
  "cellar (SingleFamilyDwelling args) = config_setter (a_cellar args)"
  "dormer (SingleFamilyDwelling args) = config_setter (a_dormer args)"
  "outer_area (SingleFamilyDwelling args) = a_outer_area args"
  "window_area (SingleFamilyDwelling args) = a_window_area args"
  by (simp_all add: init_eqs)

lemma init_constants:
  "nr_of_orientation (SingleFamilyDwelling args) = 4"
  "est_living_area_factor (SingleFamilyDwelling args) = 0.75"
  "est_bottom_building_closure (SingleFamilyDwelling args) = 1.33"
  "est_upper_building_closure (SingleFamilyDwelling args) = 1"
  "est_factor_win_area (SingleFamilyDwelling args) = 0.2"
  "est_factor_cellar_area (SingleFamilyDwelling args) = 0.5"
  by (simp_all add: init_eqs)

lemma init_names:
  "outer_wall_names (SingleFamilyDwelling args) =
        [(''Exterior Facade North'', 90.0, 0.0), (''Exterior Facade East'', 90.0, 90.0),
         (''Exterior Facade South'', 90.0, 180.0), (''Exterior Facade West'', 90.0, 270.0)]"
  "window_names (SingleFamilyDwelling args) =
        [(''Window Facade North'', 90.0, 0.0), (''Window Facade East'', 90.0, 90.0),
         (''Window Facade South'', 90.0, 180.0), (''Window Facade West'', 90.0, 270.0)]"
  "roof_names (SingleFamilyDwelling args) = [(''Rooftop'', 0, -1)]"
  "ground_floor_names (SingleFamilyDwelling args) = [(''Ground Floor'', 0, -2)]"
  by (simp_all add: init_eqs)

lemma init_tables:
  "u_est_factor_heated_cellar (SingleFamilyDwelling args) =
     (if cellar (SingleFamilyDwelling args) = 2 then 0.5
      else if cellar (SingleFamilyDwelling args) = 3 then 1 else 0)"
  "u_est_factor_heated_attic (SingleFamilyDwelling args) =
     (if attic (SingleFamilyDwelling args) = 2 then 0.5
      else if attic (SingleFamilyDwelling args) = 3 then 1 else 0)"
  "u_est_area_per_floor (SingleFamilyDwelling args) =
     (if attic (SingleFamilyDwelling args) = 0 then 1.33
      else if attic (SingleFamilyDwelling args) = 1 then 0
      else if attic (SingleFamilyDwelling args) = 2 then 0.75
      else if attic (SingleFamilyDwelling args) = 3 then 1.5 else 0)"
  "u_est_area_per_roof (SingleFamilyDwelling args) =
     (if attic (SingleFamilyDwelling args) = 1 then 1.33
      else if attic (SingleFamilyDwelling args) = 2 then 0.67 else 0)"
  "u_est_factor_dormer (SingleFamilyDwelling args) =
     (if dormer (SingleFamilyDwelling args) = 0 then 1
      else if dormer (SingleFamilyDwelling args) = 1 then 1.3 else 0)"
  "u_est_facade_to_floor_area (SingleFamilyDwelling args) =
     (if residential_layout (SingleFamilyDwelling args) = 0 then 0.66
      else if residential_layout (SingleFamilyDwelling args) = 1 then 0.8 else 0)"
  "u_est_extra_floor_area (SingleFamilyDwelling args) =
     (if neighbour_buildings (SingleFamilyDwelling args) = 0 then Some 50
      else if neighbour_buildings (SingleFamilyDwelling args) = 1 then Some 30
      else if neighbour_buildings (SingleFamilyDwelling args) = 2 then Some 10 else None)"
  by (simp_all add: init_eqs split del: if_split cong: if_cong)

lemma heated_floors_of_init:
  "heated_floors_of
     ((SingleFamilyDwelling args)\<lparr>u_est_factor_heated_cellar := cf, u_est_factor_heated_attic := af\<rparr>)
   = cf + of_int (a_number_of_floors args) + 0.75 * af"
  by (simp add: heated_floors_of_def init_config init_constants)

lemma heated_floors_of_init_plain:
  "heated_floors_of (SingleFamilyDwelling args)
   = u_est_factor_heated_cellar (SingleFamilyDwelling args) + of_int (a_number_of_floors args)
     + 0.75 * u_est_factor_heated_attic (SingleFamilyDwelling args)"
  by (simp add: heated_floors_of_def init_config init_constants)

lemma init_factors_nonneg:
  "0 \<le> u_est_factor_heated_cellar (SingleFamilyDwelling args)"
  "0 \<le> u_est_factor_heated_attic (SingleFamilyDwelling args)"
  by (simp_all add: init_tables)

lemma heated_floors_positive:
  assumes "1 \<le> a_number_of_floors args"
  shows "heated_floors_of (SingleFamilyDwelling args) \<noteq> 0"
proof -
  define x where "x = 0.75 * u_est_factor_heated_attic (SingleFamilyDwelling args)"
  from init_factors_nonneg(2) [of args] have "0 \<le> x" by (simp add: x_def)
  moreover from assms have "(1::real) \<le> of_int (a_number_of_floors args)" by simp
  moreover have "heated_floors_of (SingleFamilyDwelling args)
      = u_est_factor_heated_cellar (SingleFamilyDwelling args)
        + of_int (a_number_of_floors args) + x"
    unfolding x_def by (rule heated_floors_of_init_plain)
  ultimately have "1 \<le> heated_floors_of (SingleFamilyDwelling args)"
    using init_factors_nonneg(1) [of args] by linarith
  then show ?thesis by simp
qed

lemma init_generate_total:
  assumes "1 \<le> a_number_of_floors args"
    and "neighbour_buildings (SingleFamilyDwelling args) \<in> {0, 1, 2}"
    and "collaborators_succeed ext"
  shows "\<exists>g w'. generate_archetype ext (SingleFamilyDwelling args) w = Inr (g, w')"
proof -
  from assms(2) have "\<exists>extra. u_est_extra_floor_area (SingleFamilyDwelling args) = Some extra"
    by (auto simp: init_tables)
  then obtain extra where x: "u_est_extra_floor_area (SingleFamilyDwelling args) = Some extra" ..
  have n: "nr_of_orientation (SingleFamilyDwelling args) \<noteq> 0" by (simp add: init_constants)
  from generate_archetype_total [OF assms(3) n heated_floors_positive [OF assms(1)] x]
  show ?thesis .
qed

lemma no_collaborators_succeed: "collaborators_succeed no_collaborators"
  by (simp add: collaborators_succeed_def collaborators_never_def no_collaborators_def)

lemma no_collaborators_never: "collaborators_never no_collaborators err"
  by (simp add: collaborators_never_def no_collaborators_def)

lemma no_collaborators_total:
  assumes "1 \<le> a_number_of_floors args"
    and "neighbour_buildings (SingleFamilyDwelling args) \<in> {0, 1, 2}"
  shows "\<exists>g. generate_archetype no_collaborators (SingleFamilyDwelling args) () = Inr (g, ())"
  using init_generate_total [OF assms no_collaborators_succeed, of "()"] by simp

lemma ex_args_fields:
  "a_number_of_floors ex_args = 1" "a_net_leased_area ex_args = 120"
  "a_number_of_floors ex_args_dormer = 1" "a_net_leased_area ex_args_dormer = 120"
  "a_number_of_floors ex_args_attic5 = 1" "a_net_leased_area ex_args_attic5 = 120"
  "a_number_of_floors ex_args_no_entry = 1" "a_net_leased_area ex_args_no_entry = 120"
  "a_number_of_floors ex_args_no_floor = 0"
  by (simp_all add: ex_args_def ex_args_dormer_def ex_args_attic5_def ex_args_no_entry_def
        ex_args_no_floor_def)

lemma ex_args_config:
  "number_of_floors (SingleFamilyDwelling ex_args) = 1"
  "net_leased_area (SingleFamilyDwelling ex_args) = 120"
  "residential_layout (SingleFamilyDwelling ex_args) = 0"
  "neighbour_buildings (SingleFamilyDwelling ex_args) = 0"
  "attic (SingleFamilyDwelling ex_args) = 0"
  "cellar (SingleFamilyDwelling ex_args) = 0"
  "dormer (SingleFamilyDwelling ex_args) = 0"
  "number_of_floors (SingleFamilyDwelling ex_args_dormer) = 1"
  "net_leased_area (SingleFamilyDwelling ex_args_dormer) = 120"
  "residential_layout (SingleFamilyDwelling ex_args_dormer) = 0"
  "neighbour_buildings (SingleFamilyDwelling ex_args_dormer) = 0"
  "attic (SingleFamilyDwelling ex_args_dormer) = 1"
  "cellar (SingleFamilyDwelling ex_args_dormer) = 0"
  "dormer (SingleFamilyDwelling ex_args_dormer) = 1"
  "number_of_floors (SingleFamilyDwelling ex_args_attic5) = 1"
  "net_leased_area (SingleFamilyDwelling ex_args_attic5) = 120"
  "residential_layout (SingleFamilyDwelling ex_args_attic5) = 0"
  "neighbour_buildings (SingleFamilyDwelling ex_args_attic5) = 0"
  "attic (SingleFamilyDwelling ex_args_attic5) = 5"
  "cellar (SingleFamilyDwelling ex_args_attic5) = 0"
  "dormer (SingleFamilyDwelling ex_args_attic5) = 0"
  "number_of_floors (SingleFamilyDwelling ex_args_no_entry) = 1"
  "net_leased_area (SingleFamilyDwelling ex_args_no_entry) = 120"
  "residential_layout (SingleFamilyDwelling ex_args_no_entry) = 7"
  "neighbour_buildings (SingleFamilyDwelling ex_args_no_entry) = 0"
  "attic (SingleFamilyDwelling ex_args_no_entry) = 5"
  "cellar (SingleFamilyDwelling ex_args_no_entry) = 9"
  "dormer (SingleFamilyDwelling ex_args_no_entry) = 4"
  by (simp_all add: init_config config_setter_def ex_args_def ex_args_dormer_def
        ex_args_attic5_def ex_args_no_entry_def)

lemma init_override_orientation:
  "nr_of_orientation
     ((SingleFamilyDwelling args)\<lparr>u_est_factor_heated_cellar := cf, u_est_factor_heated_attic := af\<rparr>)
   = 4"
  by (simp add: init_constants)

lemma net_leased_area_update_fields:
  assumes "b' = b\<lparr>net_leased_area := v\<rparr>"
  shows "nr_of_orientation b' = nr_of_orientation b"
    and "outer_wall_names b' = outer_wall_names b"
    and "window_names b' = window_names b"
    and "roof_names b' = roof_names b"
    and "ground_floor_names b' = ground_floor_names b"
    and "u_est_outer_wall_area b' = u_est_outer_wall_area b"
    and "u_est_win_area b' = u_est_win_area b"
    and "outer_area b' = outer_area b"
    and "window_area b' = window_area b"
  by (simp_all add: assms)

lemma outer_area_update_fields:
  assumes "b' = b\<lparr>outer_area := v\<rparr>"
  shows "nr_of_orientation b' = nr_of_orientation b"
    and "outer_wall_names b' = outer_wall_names b"
    and "window_names b' = window_names b"
    and "roof_names b' = roof_names b"
    and "ground_floor_names b' = ground_floor_names b"
    and "u_est_outer_wall_area b' = u_est_outer_wall_area b"
    and "u_est_win_area b' = u_est_win_area b"
    and "window_area b' = window_area b"
  by (simp_all add: assms)

lemma window_area_update_fields:
  assumes "b' = b\<lparr>window_area := v\<rparr>"
  shows "nr_of_orientation b' = nr_of_orientation b"
    and "outer_wall_names b' = outer_wall_names b"
    and "window_names b' = window_names b"
    and "roof_names b' = roof_names b"
    and "ground_floor_names b' = ground_floor_names b"
    and "u_est_outer_wall_area b' = u_est_outer_wall_area b"
    and "u_est_win_area b' = u_est_win_area b"
    and "outer_area b' = outer_area b"
  by (simp_all add: assms)

lemma outer_wall_loop_area:
  "outer_wall_loop ext b w ns = Inr (b', w') \<Longrightarrow>
     map_of (outer_area b') x =
       (if x \<in> (\<lambda>n. snd (snd n)) ` set ns \<and> x \<in> {0, 90, 180, 270}
        then Some (u_est_outer_wall_area b / real (nr_of_orientation b))
        else map_of (outer_area b) x)"
proof (induction ns arbitrary: b w)
  case Nil
  then show ?case by simp
next
  case (Cons n ns)
  obtain key tilt orientation where n: "n = (key, tilt, orientation)" by (cases n)
  show ?case
  proof (cases "orientation = 0 \<or> orientation = 180 \<or> orientation = 90 \<or> orientation = 270")
    case True
    define b1 where
      "b1 = b\<lparr>outer_area := dict_set (outer_area b) orientation
                 (u_est_outer_wall_area b / real (nr_of_orientation b))\<rparr>"
    from True Cons.prems n obtain w1 where
      "outer_wall_loop ext b1 w1 ns = Inr (b', w')"
      unfolding b1_def
      by (auto simp: bind_err_eq_Inr py_truediv_def split: if_splits)
    from Cons.IH [OF this] have
      "map_of (outer_area b') x =
         (if x \<in> (\<lambda>n. snd (snd n)) ` set ns \<and> x \<in> {0, 90, 180, 270}
          then Some (u_est_outer_wall_area b1 / real (nr_of_orientation b1))
          else map_of (outer_area b1) x)" .
    with True n show ?thesis
      unfolding b1_def by (auto simp: map_of_dict_set)
  next
    case False
    with Cons.prems n obtain w1 where "outer_wall_loop ext b w1 ns = Inr (b', w')"
      by (auto simp: bind_err_eq_Inr)
    from Cons.IH [OF this] False n show ?thesis by auto
  qed
qed

lemma window_loop_area:
  "window_loop ext b w ns = Inr (b', w') \<Longrightarrow>
     map_of (window_area b') x =
       (if x \<in> (\<lambda>n. snd (snd n)) ` set ns \<and> x \<in> {0, 90, 180, 270}
        then Some (u_est_win_area b / real (nr_of_orientation b))
        else map_of (window_area b) x)"
proof (induction ns arbitrary: b w)
  case Nil
  then show ?case by simp
next
  case (Cons n ns)
  obtain key tilt orientation where n: "n = (key, tilt, orientation)" by (cases n)
  show ?case
  proof (cases "orientation = 0 \<or> orientation = 180 \<or> orientation = 90 \<or> orientation = 270")
    case True
    define b1 where
      "b1 = b\<lparr>window_area := dict_set (window_area b) orientation
                 (u_est_win_area b / real (nr_of_orientation b))\<rparr>"
    from True Cons.prems n obtain w1 where
      "window_loop ext b1 w1 ns = Inr (b', w')"
      unfolding b1_def
      by (auto simp: bind_err_eq_Inr py_truediv_def split: if_splits)
    from Cons.IH [OF this] have
      "map_of (window_area b') x =
         (if x \<in> (\<lambda>n. snd (snd n)) ` set ns \<and> x \<in> {0, 90, 180, 270}
          then Some (u_est_win_area b1 / real (nr_of_orientation b1))
          else map_of (window_area b1) x)" .
    with True n show ?thesis
      unfolding b1_def by (auto simp: map_of_dict_set)
  next
    case False
    with Cons.prems n obtain w1 where "window_loop ext b w1 ns = Inr (b', w')"
      by (auto simp: bind_err_eq_Inr)
    from Cons.IH [OF this] False n show ?thesis by auto
  qed
qed

lemma roof_loop_area:
  "roof_loop ext b w ns = Inr (b', w') \<Longrightarrow>
     map_of (outer_area b') x =
       (if x \<in> (\<lambda>n. snd (snd n)) ` set ns then Some (u_est_roof_area b)
        else map_of (outer_area b) x)"
proof (induction ns arbitrary: b w)
  case Nil
  then show ?case by simp
next
  case (Cons n ns)
  obtain key tilt orientation where n: "n = (key, tilt, orientation)" by (cases n)
  define b1 where
    "b1 = b\<lparr>outer_area := dict_set (outer_area b) orientation (u_est_roof_area b)\<rparr>"
  from Cons.prems n obtain w1 where "roof_loop ext b1 w1 ns = Inr (b', w')"
    unfolding b1_def by (auto simp: bind_err_eq_Inr Let_def)
  from Cons.IH [OF this] have
    "map_of (outer_area b') x =
       (if x \<in> (\<lambda>n. snd (snd n)) ` set ns then Some (u_est_roof_area b1)
        else map_of (outer_area b1) x)" .
  with n show ?case
    unfolding b1_def by (auto simp: map_of_dict_set)
qed

lemma ground_floor_loop_area:
  "ground_floor_loop ext b w ns = Inr (b', w') \<Longrightarrow>
     map_of (outer_area b') x =
       (if x \<in> (\<lambda>n. snd (snd n)) ` set ns then Some (u_est_ground_floor_area b)
        else map_of (outer_area b) x)"
proof (induction ns arbitrary: b w)
  case Nil
  then show ?case by simp
next
  case (Cons n ns)
  obtain key tilt orientation where n: "n = (key, tilt, orientation)" by (cases n)
  define b1 where
    "b1 = b\<lparr>outer_area := dict_set (outer_area b) orientation (u_est_ground_floor_area b)\<rparr>"
  from Cons.prems n obtain w1 where "ground_floor_loop ext b1 w1 ns = Inr (b', w')"
    unfolding b1_def by (auto simp: bind_err_eq_Inr Let_def)
  from Cons.IH [OF this] have
    "map_of (outer_area b') x =
       (if x \<in> (\<lambda>n. snd (snd n)) ` set ns then Some (u_est_ground_floor_area b1)
        else map_of (outer_area b1) x)" .
  with n show ?case
    unfolding b1_def by (auto simp: map_of_dict_set)
qed

lemma generate_elements_default_areas:
  assumes g: "generate_elements ext t b w = Inr (g, w')"
    and o: "(\<lambda>n. snd (snd n)) ` set (outer_wall_names b) = {0, 90, 180, 270}"
    and v: "(\<lambda>n. snd (snd n)) ` set (window_names b) = {0, 90, 180, 270}"
    and r: "(\<lambda>n. snd (snd n)) ` set (roof_names b) = {-1}"
    and f: "(\<lambda>n. snd (snd n)) ` set (ground_floor_names b) = {-2}"
    and x: "x \<in> {0, 90, 180, 270}"
  shows "map_of (outer_area g) x = Some (u_est_outer_wall_area g / real (nr_of_orientation b))"
    and "map_of (window_area g) x = Some (u_est_win_area g / real (nr_of_orientation b))"
proof -
  from generate_elements_steps [OF g] obtain b1 w1 b2 w2 b3 w3 b4 w4 w5 where
    1: "zone_loop ext t b w (zone_area_factors b) = Inr (b1, w1)"
    and 2: "outer_wall_loop ext b1 w1 (outer_wall_names b1) = Inr (b2, w2)"
    and 3: "window_loop ext b2 w2 (window_names b2) = Inr (b3, w3)"
    and 4: "roof_loop ext b3 w3 (roof_names b3) = Inr (b4, w4)"
    and 5: "ground_floor_loop ext b4 w4 (ground_floor_names b4) = Inr (g, w5)"
    by blast
  note f1 = net_leased_area_update_fields [OF zone_loop_fields [OF 1]]
  note f2 = outer_area_update_fields [OF outer_wall_loop_fields [OF 2]]
  note f3 = window_area_update_fields [OF window_loop_fields [OF 3]]
  note f4 = outer_area_update_fields [OF roof_loop_fields [OF 4]]
  note f5 = outer_area_update_fields [OF ground_floor_loop_fields [OF 5]]
  have n1: "outer_wall_names b1 = outer_wall_names b" by (rule f1)
  have n2: "window_names b2 = window_names b" by (simp only: f2 f1)
  have n3: "roof_names b3 = roof_names b" by (simp only: f3 f2 f1)
  have n4: "ground_floor_names b4 = ground_floor_names b" by (simp only: f4 f3 f2 f1)
  have k1: "nr_of_orientation b1 = nr_of_orientation b" by (rule f1)
  have k2: "nr_of_orientation b2 = nr_of_orientation b" by (simp only: f2 f1)
  have u: "u_est_outer_wall_area g = u_est_outer_wall_area b1" by (simp only: f5 f4 f3 f2)
  have y: "u_est_win_area g = u_est_win_area b2" by (simp only: f5 f4 f3)
  have wa: "window_area g = window_area b3" by (simp only: f5 f4)
  have xr: "x \<noteq> -1" "x \<noteq> -2" using x by auto
  have "map_of (outer_area g) x = map_of (outer_area b4) x"
    using ground_floor_loop_area [OF 5, of x] xr by (simp add: n4 f)
  also have "\<dots> = map_of (outer_area b3) x"
    using roof_loop_area [OF 4, of x] xr by (simp add: n3 r)
  also have "\<dots> = map_of (outer_area b2) x" by (simp only: f3)
  also have "\<dots> = Some (u_est_outer_wall_area b1 / real (nr_of_orientation b1))"
    using outer_wall_loop_area [OF 2, of x] x by (simp only: n1 o if_True simp_thms)
  finally show "map_of (outer_area g) x
      = Some (u_est_outer_wall_area g / real (nr_of_orientation b))"
    by (simp only: u k1)
  have "map_of (window_area g) x = map_of (window_area b3) x" by (simp only: wa)
  also have "\<dots> = Some (u_est_win_area b2 / real (nr_of_orientation b2))"
    using window_loop_area [OF 3, of x] x by (simp only: n2 v if_True simp_thms)
  finally show "map_of (window_area g) x
      = Some (u_est_win_area g / real (nr_of_orientation b))"
    by (simp only: y k2)
qed

lemma init_orientations:
  "(\<lambda>n. snd (snd n)) ` set (outer_wall_names (SingleFamilyDwelling args)) = {0, 90, 180, 270}"
  "(\<lambda>n. snd (snd n)) ` set (window_names (SingleFamilyDwelling args)) = {0, 90, 180, 270}"
  "(\<lambda>n. snd (snd n)) ` set (roof_names (SingleFamilyDwelling args)) = {-1}"
  "(\<lambda>n. snd (snd n)) ` set (ground_floor_names (SingleFamilyDwelling args)) = {-2}"
  by (simp_all add: init_names)

lemma init_generate_areas:
  assumes g: "generate_archetype ext (SingleFamilyDwelling args) w = Inr (g, w')"
    and x: "x \<in> {0, 90, 180, 270}"
  shows "map_of (outer_area g) x = Some (u_est_outer_wall_area g / 4)"
    and "map_of (window_area g) x = Some (u_est_win_area g / 4)"
proof -
  define b where "b = SingleFamilyDwelling args"
  from generate_archetype_Inr [OF g] obtain extra where
    e: "generate_elements ext (net_leased_area b) (estimated b extra)
          (c_reset_thermal_zones ext w) = Inr (g, w')"
    unfolding b_def by blast
  have n: "real (nr_of_orientation (estimated b extra)) = 4"
    unfolding b_def by (simp add: estimated_unchanged init_constants)
  have o: "(\<lambda>n. snd (snd n)) ` set (outer_wall_names (estimated b extra)) = {0, 90, 180, 270}"
    unfolding b_def estimated_unchanged by (rule init_orientations)
  have v: "(\<lambda>n. snd (snd n)) ` set (window_names (estimated b extra)) = {0, 90, 180, 270}"
    unfolding b_def estimated_unchanged by (rule init_orientations)
  have r: "(\<lambda>n. snd (snd n)) ` set (roof_names (estimated b extra)) = {-1}"
    unfolding b_def estimated_unchanged by (rule init_orientations)
  have f: "(\<lambda>n. snd (snd n)) ` set (ground_floor_names (estimated b extra)) = {-2}"
    unfolding b_def estimated_unchanged by (rule init_orientations)
  note a = generate_elements_default_areas [OF e o v r f x]
  from a(1) show "map_of (outer_area g) x = Some (u_est_outer_wall_area g / 4)"
    unfolding n .
  from a(2) show "map_of (window_area g) x = Some (u_est_win_area g / 4)"
    unfolding n .
qed

lemma load_material_id_id:
  "load_material_id mid mb = Inr m \<Longrightarrow> material_id m = mid"
  by (induction mid mb rule: load_material_id.induct) (auto split: if_splits)

lemma load_layers_result_view:
  "load_layers dc e ls = Inr e' \<Longrightarrow>
   \<exists>news. e' = e\<lparr>layers := layers e @ news\<rparr> \<and> map layer_view news = map layer_in_view ls"
proof (induction ls arbitrary: e)
  case Nil
  then have "e' = e\<lparr>layers := layers e @ []\<rparr> \<and> map layer_view [] = map layer_in_view []"
    by simp
  then show ?case by blast
next
  case (Cons p ls)
  obtain i l where p: "p = (i, l)" by (cases p)
  show ?case
  proof (cases "load_material_id (in_material_id l) (material_bind dc)")
    case (Inl err)
    with Cons.prems p show ?thesis by (simp add: bind_err_Inl)
  next
    case (Inr m)
    define new where "new = \<lparr>layer_id = i, thickness = in_thickness l, layer_material = m\<rparr>"
    define e0 where "e0 = e\<lparr>layers := layers e @ [new]\<rparr>"
    from Cons.prems p Inr have "load_layers dc e0 ls = Inr e'"
      by (simp add: bind_err_Inr e0_def new_def)
    from Cons.IH [OF this] obtain news where
      n: "e' = e0\<lparr>layers := layers e0 @ news\<rparr>"
      and v: "map layer_view news = map layer_in_view ls" by blast
    from n have 1: "e' = e\<lparr>layers := layers e @ (new # news)\<rparr>"
      by (simp add: e0_def)
    from load_material_id_id [OF Inr] have "layer_view new = layer_in_view p"
      by (simp add: layer_view_def layer_in_view_def new_def p)
    with v have 2: "map layer_view (new # news) = map layer_in_view (p # ls)" by simp
    from 1 2 show ?thesis by blast
  qed
qed

lemma spec_apply_layers:
  assumes "spec_apply dc rv e r = Inr e'"
  shows "\<exists>news. layers e' = layers e @ news
          \<and> map layer_view news = map layer_in_view (if rv then rev (in_layer r) else in_layer r)"
proof (cases "set_basic_data e r")
  case (Inl err)
  with assms show ?thesis by (simp add: spec_apply_def bind_err_Inl)
next
  case (Inr e1)
  with assms have "load_layers dc e1 (if rv then rev (in_layer r) else in_layer r) = Inr e'"
    by (simp add: spec_apply_def bind_err_Inr)
  from load_layers_result_view [OF this] obtain news where
    "e' = e1\<lparr>layers := layers e1 @ news\<rparr>"
    "map layer_view news = map layer_in_view (if rv then rev (in_layer r) else in_layer r)"
    by blast
  moreover from Inr have "layers e1 = layers e" by (rule set_basic_data_layers)
  ultimately have "layers e' = layers e @ news
      \<and> map layer_view news = map layer_in_view (if rv then rev (in_layer r) else in_layer r)"
    by simp
  then show ?thesis by blast
qed

lemma set_basic_data_common:
  "set_basic_data e r = Inr e1 \<Longrightarrow>
   type_name e1 = type_name e
   \<and> building_age_group e1 = Some (in_building_age_group r)
   \<and> construction_type e1 = Some (in_construction_type r)
   \<and> inner_radiation e1 = Some (in_inner_radiation r)
   \<and> inner_convection e1 = Some (in_inner_convection r)"
  unfolding set_basic_data_def Let_def getitem_def bind_err_def
  by (simp split: if_splits option.splits) force+

lemma set_basic_data_outer:
  "set_basic_data e r = Inr e1 \<Longrightarrow>
   (if type_name e \<in> {''OuterWall'', ''Rooftop'', ''Door'', ''Window''}
    then outer_radiation e1 = in_outer_radiation r \<and> outer_convection e1 = in_outer_convection r
    else outer_radiation e1 = outer_radiation e \<and> outer_convection e1 = outer_convection e)"
  unfolding set_basic_data_def Let_def getitem_def bind_err_def
  by (simp split: if_splits option.splits) force+

lemma set_basic_data_window:
  "set_basic_data e r = Inr e1 \<Longrightarrow>
   (if type_name e = ''Window''
    then g_value e1 = in_g_value r \<and> a_conv e1 = in_a_conv r
         \<and> shading_g_total e1 = in_shading_g_total r
         \<and> shading_max_irr e1 = in_shading_max_irr r
    else g_value e1 = g_value e \<and> a_conv e1 = a_conv e
         \<and> shading_g_total e1 = shading_g_total e
         \<and> shading_max_irr e1 = shading_max_irr e)"
  unfolding set_basic_data_def Let_def getitem_def bind_err_def
  by (simp split: if_splits option.splits) force+

lemma set_basic_data_returns:
  "(\<exists>e1. set_basic_data e r = Inr e1) =
     ((type_name e \<in> {''OuterWall'', ''Rooftop'', ''Door'', ''Window''}
         \<longrightarrow> in_outer_radiation r \<noteq> None \<and> in_outer_convection r \<noteq> None)
      \<and> (type_name e = ''Window''
         \<longrightarrow> in_g_value r \<noteq> None \<and> in_a_conv r \<noteq> None
           \<and> in_shading_g_total r \<noteq> None \<and> in_shading_max_irr r \<noteq> None))"
  unfolding set_basic_data_def Let_def getitem_def bind_err_def
  by (simp split: if_splits option.splits) 

lemma load_material_id_mem:
  "load_material_id mid mb = Inr m \<Longrightarrow> mid \<in> fst ` set mb"
  by (induction mid mb rule: load_material_id.induct) (auto split: if_splits)

lemma load_layers_materials:
  "load_layers dc e ls = Inr e' \<Longrightarrow>
   \<forall>p \<in> set ls. in_material_id (snd p) \<in> fst ` set (material_bind dc)"
proof (induction ls arbitrary: e)
  case Nil
  show ?case by simp
next
  case (Cons p ls)
  obtain i l where p: "p = (i, l)" by (cases p)
  from Cons.prems p obtain m where
    m: "load_material_id (in_material_id l) (material_bind dc) = Inr m"
    and r: "load_layers dc
        (e\<lparr>layers := layers e @ [\<lparr>layer_id = i, thickness = in_thickness l, layer_material = m\<rparr>]\<rparr>)
        ls = Inr e'"
    by (auto simp: bind_err_eq_Inr)
  from load_material_id_mem [OF m] Cons.IH [OF r] p show ?case by simp
qed

lemma spec_apply_returns:
  "(\<exists>e'. spec_apply dc rv e r = Inr e') = spec_applicable dc e r"
proof
  assume "\<exists>e'. spec_apply dc rv e r = Inr e'"
  then obtain e' e1 where 1: "set_basic_data e r = Inr e1"
    and 2: "load_layers dc e1 (if rv then rev (in_layer r) else in_layer r) = Inr e'"
    by (auto simp: spec_apply_def bind_err_eq_Inr)
  from 1 have a: "(type_name e \<in> {''OuterWall'', ''Rooftop'', ''Door'', ''Window''}
         \<longrightarrow> in_outer_radiation r \<noteq> None \<and> in_outer_convection r \<noteq> None)
      \<and> (type_name e = ''Window''
         \<longrightarrow> in_g_value r \<noteq> None \<and> in_a_conv r \<noteq> None
           \<and> in_shading_g_total r \<noteq> None \<and> in_shading_max_irr r \<noteq> None)"
    using set_basic_data_returns [of e r] by blast
  from load_layers_materials [OF 2]
  have "\<forall>p \<in> set (in_layer r). in_material_id (snd p) \<in> fst ` set (material_bind dc)"
    by (simp split: if_splits)
  then have "set (map (\<lambda>p. in_material_id (snd p)) (in_layer r)) \<subseteq> set (map fst (material_bind dc))"
    by auto
  with a show "spec_applicable dc e r" unfolding spec_applicable_def by blast
next
  assume s: "spec_applicable dc e r"
  then have "\<exists>e1. set_basic_data e r = Inr e1"
    unfolding spec_applicable_def set_basic_data_returns by blast
  then obtain e1 where 1: "set_basic_data e r = Inr e1" ..
  from s have "\<forall>p \<in> set (in_layer r). in_material_id (snd p) \<in> fst ` set (material_bind dc)"
    unfolding spec_applicable_def by auto
  from spec_apply_present [OF 1 this] show "\<exists>e'. spec_apply dc rv e r = Inr e'" by blast
qed

lemma spec_apply_applied:
  assumes "spec_apply dc rv e r = Inr e'"
  shows "spec_applied rv e r e'"
proof -
  from assms obtain e1 where 1: "set_basic_data e r = Inr e1"
    and 2: "load_layers dc e1 (if rv then rev (in_layer r) else in_layer r) = Inr e'"
    by (auto simp: spec_apply_def bind_err_eq_Inr)
  from load_layers_result_view [OF 2] obtain news where
    e': "e' = e1\<lparr>layers := layers e1 @ news\<rparr>"
    and v: "map layer_view news = map layer_in_view (if rv then rev (in_layer r) else in_layer r)"
    by blast
  have l: "layers e1 = layers e" using 1 by (rule set_basic_data_layers)
  note c = set_basic_data_common [OF 1] set_basic_data_outer [OF 1] set_basic_data_window [OF 1]
  have f: "type_name e' = type_name e1" "building_age_group e' = building_age_group e1"
    "construction_type e' = construction_type e1" "inner_radiation e' = inner_radiation e1"
    "inner_convection e' = inner_convection e1" "outer_radiation e' = outer_radiation e1"
    "outer_convection e' = outer_convection e1" "g_value e' = g_value e1" "a_conv e' = a_conv e1"
    "shading_g_total e' = shading_g_total e1" "shading_max_irr e' = shading_max_irr e1"
    "layers e' = layers e @ news"
    by (simp_all add: e' l)
  have t: "take (length (layers e)) (layers e') = layers e"
    "drop (length (layers e)) (layers e') = news"
    by (simp_all add: f(12))
  show ?thesis
    unfolding spec_applied_def f(1-11) t v using c by (intro conjI) simp_all
qed

section \<open>Claims about the type-element resolver\<close>

text \<open>
  Claim C1. For every database, element, year and technique, \<^verbatim>\<open>load_type_element\<close>
  applies a record if and only if its key is not \<^verbatim>\<open>"version"\<close>, its key starts with
  the category string (the runtime type name of the element unless the override is
  given), its age range contains the year, both bounds included, and its technique tag
  equals the technique: the loop of the source does exactly what applying, in storage
  order, the items selected by that predicate does. In both, an error raised while a
  record is applied ends the resolution.
\<close>

theorem load_type_element_applies_matching_records:
  "load_type_element e year technique dc element_type reverse_layers =
     spec_apply_all dc reverse_layers e
       (filter (spec_matches (spec_category e element_type) year technique) (element_bind dc))"
  by (simp add: load_type_element_def spec_category_def loop_is_filter)


text \<open>
  Claim C2. When no database record satisfies the matching predicate,
  \<^verbatim>\<open>load_type_element\<close> raises nothing and returns the element as it was: every
  attribute keeps its value, so the exchange coefficients of a fresh element stay unset
  and no layer is added.
\<close>

theorem load_type_element_no_match_unchanged:
  "\<forall>it \<in> set (element_bind dc). \<not> spec_matches (spec_category e element_type) year technique it
   \<Longrightarrow> load_type_element e year technique dc element_type reverse_layers = Inr e"
proof -
  assume "\<forall>it \<in> set (element_bind dc). \<not> spec_matches (spec_category e element_type) year technique it"
  then have "filter (spec_matches (spec_category e element_type) year technique) (element_bind dc) = []"
    by (simp add: filter_empty_conv)
  then show ?thesis by (simp add: load_type_element_filter)
qed

theorem load_type_element_no_match_unchanged_witness:
  "filter (spec_matches (spec_category (new_element ''OuterWall'') None) 1950 ''heavy'')
      (element_bind ex_data) = []
   \<and> load_type_element (new_element ''OuterWall'') 1950 ''heavy'' ex_data None False
       = Inr (new_element ''OuterWall'')
   \<and> outer_radiation (new_element ''OuterWall'') = None
   \<and> layers (new_element ''OuterWall'') = []"
proof -
  have h: "\<forall>it \<in> set (element_bind ex_data).
      \<not> spec_matches (spec_category (new_element ''OuterWall'') None) 1950 ''heavy'' it"
    by (simp add: ex_defs spec_category_def)
  then have "filter (spec_matches (spec_category (new_element ''OuterWall'') None) 1950 ''heavy'')
      (element_bind ex_data) = []"
    by (simp add: filter_empty_conv)
  with load_type_element_no_match_unchanged [OF h] show ?thesis by (simp add: new_element_def)
qed

text \<open>
  Claim C3. In every resolution with exactly one matching record (by characteristics: the
  selected items are that one record; by key: the key is bound to the record) that
  returns, the element has received one layer per layer definition of the record, each
  with the layer id, thickness and material id of its definition, in storage order when
  \<open>reverse_layers\<close> is false and in exactly the reversed order when it is true. The
  resolution does return when the coefficient fields read for the runtime type of the
  element are present in the record and every material id of the record is in the
  material database; otherwise it raises and the claim says nothing.
\<close>

theorem resolved_layers_follow_record:
  "(filter (spec_matches (spec_category e element_type) year technique) (element_bind dc)
        = [Entry k r]
      \<and> load_type_element e year technique dc element_type reverse_layers = Inr e'
      \<longrightarrow> (\<exists>news. layers e' = layers e @ news
             \<and> map layer_view news
                 = map layer_in_view (if reverse_layers then rev (in_layer r) else in_layer r)))
   \<and> (bind_lookup (element_bind dc) key_str = Inr (Entry k r)
      \<and> load_type_element_by_key e key_str dc reverse_layers = Inr e'
      \<longrightarrow> (\<exists>news. layers e' = layers e @ news
             \<and> map layer_view news
                 = map layer_in_view (if reverse_layers then rev (in_layer r) else in_layer r)))
   \<and> (set_basic_data e r = Inr e1
      \<and> set (map (\<lambda>p. in_material_id (snd p)) (in_layer r)) \<subseteq> set (map fst (material_bind dc))
      \<longrightarrow> (filter (spec_matches (spec_category e element_type) year technique) (element_bind dc)
              = [Entry k r]
            \<longrightarrow> (\<exists>e2. load_type_element e year technique dc element_type reverse_layers = Inr e2))
        \<and> (bind_lookup (element_bind dc) key_str = Inr (Entry k r)
            \<longrightarrow> (\<exists>e2. load_type_element_by_key e key_str dc reverse_layers = Inr e2)))"
proof -
  have c: "load_type_element e year technique dc element_type reverse_layers
            = spec_apply dc reverse_layers e r"
    if "filter (spec_matches (spec_category e element_type) year technique) (element_bind dc)
        = [Entry k r]"
    using that by (simp add: load_type_element_filter bind_err_def split: sum.splits)
  have b: "load_type_element_by_key e key_str dc reverse_layers = spec_apply dc reverse_layers e r"
    if "bind_lookup (element_bind dc) key_str = Inr (Entry k r)"
    using that by (rule by_key_entry)
  have 1: "\<exists>news. layers e' = layers e @ news
             \<and> map layer_view news
                 = map layer_in_view (if reverse_layers then rev (in_layer r) else in_layer r)"
    if "filter (spec_matches (spec_category e element_type) year technique) (element_bind dc)
        = [Entry k r]
      \<and> load_type_element e year technique dc element_type reverse_layers = Inr e'"
    using that c spec_apply_layers [of dc reverse_layers e r e'] by simp
  have 2: "\<exists>news. layers e' = layers e @ news
             \<and> map layer_view news
                 = map layer_in_view (if reverse_layers then rev (in_layer r) else in_layer r)"
    if "bind_lookup (element_bind dc) key_str = Inr (Entry k r)
      \<and> load_type_element_by_key e key_str dc reverse_layers = Inr e'"
    using that b spec_apply_layers [of dc reverse_layers e r e'] by simp
  have 3: "\<exists>e2. spec_apply dc reverse_layers e r = Inr e2"
    if "set_basic_data e r = Inr e1
      \<and> set (map (\<lambda>p. in_material_id (snd p)) (in_layer r)) \<subseteq> set (map fst (material_bind dc))"
  proof -
    from that have "\<forall>p \<in> set (in_layer r). in_material_id (snd p) \<in> fst ` set (material_bind dc)"
      by auto
    with that spec_apply_present [of e r e1 dc reverse_layers] show ?thesis by blast
  qed
  from 1 2 3 c b show ?thesis by (intro conjI impI) simp_all
qed


theorem resolved_layers_follow_record_witness:
  "filter (spec_matches (spec_category (new_element ''OuterWall'') None) 1900 ''heavy'')
        (element_bind ex_data) = [Entry ''OuterWall_1918_heavy'' ex_outer_record]
   \<and> bind_lookup (element_bind ex_data) ''OuterWall_1918_heavy''
        = Inr (Entry ''OuterWall_1918_heavy'' ex_outer_record)
   \<and> set_basic_data (new_element ''OuterWall'') ex_outer_record
     = Inr ((new_element ''OuterWall'')
              \<lparr>building_age_group := Some (0, 1918), construction_type := Some ''heavy'',
               inner_radiation := Some 5.0, inner_convection := Some 2.7,
               outer_radiation := Some 5.0, outer_convection := Some 20.0\<rparr>)
   \<and> set (map (\<lambda>p. in_material_id (snd p)) (in_layer ex_outer_record))
        \<subseteq> set (map fst (material_bind ex_data))
   \<and> map layer_in_view (in_layer ex_outer_record)
        = [(''0'', 0.015, ''m1''), (''1'', 0.36, ''m2'')]
   \<and> (\<exists>e'. load_type_element (new_element ''OuterWall'') 1900 ''heavy'' ex_data None False
               = Inr e'
            \<and> map layer_view (layers e') = [(''0'', 0.015, ''m1''), (''1'', 0.36, ''m2'')])
   \<and> (\<exists>e'. load_type_element_by_key (new_element ''OuterWall'') ''OuterWall_1918_heavy''
                 ex_data True = Inr e'
            \<and> map layer_view (layers e') = [(''1'', 0.36, ''m2''), (''0'', 0.015, ''m1'')])"
proof -
  define e where "e = new_element ''OuterWall''"
  define e1 where "e1 = (new_element ''OuterWall'')
              \<lparr>building_age_group := Some (0, 1918), construction_type := Some ''heavy'',
               inner_radiation := Some 5.0, inner_convection := Some 2.7,
               outer_radiation := Some 5.0, outer_convection := Some 20.0\<rparr>"
  define r where "r = ex_outer_record"
  define k where "k = ''OuterWall_1918_heavy''"
  define vf where "vf = [(''0'', 0.015::real, ''m1''), (''1'', 0.36, ''m2'')]"
  define vr where "vr = [(''1'', 0.36::real, ''m2''), (''0'', 0.015, ''m1'')]"
  have h1: "set_basic_data e r = Inr e1"
    unfolding e_def e1_def r_def
    by (simp add: set_basic_data_def ex_defs getitem_def bind_err_def)
  have h2: "set (map (\<lambda>p. in_material_id (snd p)) (in_layer r)) \<subseteq> set (map fst (material_bind ex_data))"
    unfolding r_def by (simp add: ex_defs)
  have h3: "filter (spec_matches (spec_category e None) 1900 ''heavy'') (element_bind ex_data)
        = [Entry k r]"
    unfolding e_def r_def k_def by (simp add: ex_defs spec_category_def)
  have h4: "bind_lookup (element_bind ex_data) k = Inr (Entry k r)"
    unfolding r_def k_def by (simp add: ex_data_def)
  have v: "map layer_in_view (in_layer r) = vf"
    unfolding r_def vf_def by (simp add: ex_outer_record_def layer_in_view_def)
  have v': "map layer_in_view (rev (in_layer r)) = vr"
    unfolding r_def vr_def by (simp add: ex_outer_record_def layer_in_view_def)
  have l: "layers e = []" unfolding e_def by (simp add: new_element_def)
  note t = resolved_layers_follow_record [where e = e and r = r and ?e1.0 = e1 and dc = ex_data
      and element_type = None and year = 1900 and technique = "''heavy''"
      and k = k and key_str = k]
  from t [where reverse_layers = False and e' = e] have
    "set_basic_data e r = Inr e1
      \<and> set (map (\<lambda>p. in_material_id (snd p)) (in_layer r)) \<subseteq> set (map fst (material_bind ex_data))
      \<longrightarrow> (filter (spec_matches (spec_category e None) 1900 ''heavy'') (element_bind ex_data)
              = [Entry k r]
            \<longrightarrow> (\<exists>e2. load_type_element e 1900 ''heavy'' ex_data None False = Inr e2))"
    by blast
  with h1 h2 h3 obtain e2 where a: "load_type_element e 1900 ''heavy'' ex_data None False = Inr e2"
    by blast
  from t [where reverse_layers = False and e' = e2] have
    "filter (spec_matches (spec_category e None) 1900 ''heavy'') (element_bind ex_data) = [Entry k r]
      \<and> load_type_element e 1900 ''heavy'' ex_data None False = Inr e2
      \<longrightarrow> (\<exists>news. layers e2 = layers e @ news
             \<and> map layer_view news = map layer_in_view (if False then rev (in_layer r) else in_layer r))"
    by blast
  with h3 a obtain news where "layers e2 = layers e @ news" "map layer_view news = map layer_in_view (in_layer r)"
    by auto
  then have a': "map layer_view (layers e2) = vf" by (simp add: l v)
  from t [where reverse_layers = True and e' = e] have
    "set_basic_data e r = Inr e1
      \<and> set (map (\<lambda>p. in_material_id (snd p)) (in_layer r)) \<subseteq> set (map fst (material_bind ex_data))
      \<longrightarrow> (bind_lookup (element_bind ex_data) k = Inr (Entry k r)
            \<longrightarrow> (\<exists>e2. load_type_element_by_key e k ex_data True = Inr e2))"
    by blast
  with h1 h2 h4 obtain e3 where b: "load_type_element_by_key e k ex_data True = Inr e3"
    by blast
  from t [where reverse_layers = True and e' = e3] have
    "bind_lookup (element_bind ex_data) k = Inr (Entry k r)
      \<and> load_type_element_by_key e k ex_data True = Inr e3
      \<longrightarrow> (\<exists>news. layers e3 = layers e @ news
             \<and> map layer_view news = map layer_in_view (if True then rev (in_layer r) else in_layer r))"
    by blast
  with h4 b obtain news' where "layers e3 = layers e @ news'"
    "map layer_view news' = map layer_in_view (rev (in_layer r))"
    by auto
  then have b': "map layer_view (layers e3) = vr" by (simp add: l v')
  from a a' have A: "\<exists>e'. load_type_element e 1900 ''heavy'' ex_data None False = Inr e'
            \<and> map layer_view (layers e') = vf" by blast
  from b b' have B: "\<exists>e'. load_type_element_by_key e k ex_data True = Inr e'
            \<and> map layer_view (layers e') = vr" by blast
  from h3 h4 h1 h2 v A B show ?thesis
    unfolding e_def e1_def r_def k_def vf_def vr_def by (intro conjI)
qed

text \<open>
  Claim C8 says that \<^verbatim>\<open>load_type_element_by_key\<close> applies the record of every key that
  is present in the database. The key \<^verbatim>\<open>"version"\<close> is present and is not bound to a
  record: for it the function raises \<^verbatim>\<open>TypeError\<close> and applies nothing.
\<close>

theorem by_key_version_counterexample:
  "''version'' \<in> item_key ` set (element_bind ex_data)
   \<and> load_type_element_by_key (new_element ''OuterWall'') ''version'' ex_data False
       = Inl TypeError"
  by (simp add: load_type_element_by_key_def ex_data_def bind_err_Inr)

text \<open>
  Claim C8, amended. \<^verbatim>\<open>load_type_element_by_key\<close> raises \<^verbatim>\<open>KeyError\<close> for the key
  whenever no item of the database is stored under it, and \<^verbatim>\<open>TypeError\<close> for the key
  \<^verbatim>\<open>"version"\<close> of the metadata item. For every other present key, that is, a key
  under which a record is stored, it applies that record without any test of year or
  technique: it returns exactly when the record can be applied to the element, what it
  returns is the element with the record applied (the coefficients of the record by the
  category of the element, and one layer per layer definition in storage or reversed
  order), and that is the result that \<^verbatim>\<open>load_type_element\<close> gives when that record is the
  one it selects. The keys of a database are distinct.
\<close>

theorem load_type_element_by_key_lookup:
  "(key_str \<notin> item_key ` set (element_bind dc)
      \<longrightarrow> load_type_element_by_key e key_str dc reverse_layers = Inl (KeyError key_str))
   \<and> (distinct (map item_key (element_bind dc)) \<longrightarrow>
        (Version v \<in> set (element_bind dc)
           \<longrightarrow> load_type_element_by_key e ''version'' dc reverse_layers = Inl TypeError)
      \<and> (Entry key_str r \<in> set (element_bind dc) \<longrightarrow>
           ((\<exists>e'. load_type_element_by_key e key_str dc reverse_layers = Inr e')
              = spec_applicable dc e r)
         \<and> (\<forall>e'. load_type_element_by_key e key_str dc reverse_layers = Inr e'
                \<longrightarrow> spec_applied reverse_layers e r e')
         \<and> (\<forall>category year technique.
              spec_matches category year technique (Entry key_str r)
              \<longrightarrow> load_type_element e year technique (dc\<lparr>element_bind := [Entry key_str r]\<rparr>)
                    (Some category) reverse_layers
                  = load_type_element_by_key e key_str dc reverse_layers)))"
proof (intro conjI impI)
  assume "key_str \<notin> item_key ` set (element_bind dc)"
  then show "load_type_element_by_key e key_str dc reverse_layers = Inl (KeyError key_str)"
    by (simp add: load_type_element_by_key_def bind_lookup_absent bind_err_Inl)
next
  assume "distinct (map item_key (element_bind dc))" and "Version v \<in> set (element_bind dc)"
  then have "bind_lookup (element_bind dc) ''version'' = Inr (Version v)"
    using bind_lookup_present [of "element_bind dc" "Version v"] by simp
  then show "load_type_element_by_key e ''version'' dc reverse_layers = Inl TypeError"
    by (simp add: load_type_element_by_key_def bind_err_Inr)
next
  assume "distinct (map item_key (element_bind dc))" and "Entry key_str r \<in> set (element_bind dc)"
  then have "bind_lookup (element_bind dc) key_str = Inr (Entry key_str r)"
    using bind_lookup_present [of "element_bind dc" "Entry key_str r"] by simp
  then have k: "load_type_element_by_key e key_str dc reverse_layers
      = spec_apply dc reverse_layers e r"
    by (rule by_key_entry)
  show "(\<exists>e'. load_type_element_by_key e key_str dc reverse_layers = Inr e')
          = spec_applicable dc e r"
    unfolding k by (rule spec_apply_returns)
  show "\<forall>e'. load_type_element_by_key e key_str dc reverse_layers = Inr e'
          \<longrightarrow> spec_applied reverse_layers e r e'"
    unfolding k using spec_apply_applied by blast
  have ll: "\<And>e1 ls. load_layers (dc\<lparr>element_bind := [Entry key_str r]\<rparr>) e1 ls = load_layers dc e1 ls"
  proof -
    fix e1 ls show "load_layers (dc\<lparr>element_bind := [Entry key_str r]\<rparr>) e1 ls = load_layers dc e1 ls"
      by (induction ls arbitrary: e1) (auto simp: bind_err_def split: sum.splits)
  qed
  show "\<forall>category year technique.
              spec_matches category year technique (Entry key_str r)
              \<longrightarrow> load_type_element e year technique (dc\<lparr>element_bind := [Entry key_str r]\<rparr>)
                    (Some category) reverse_layers
                  = load_type_element_by_key e key_str dc reverse_layers"
  proof (intro allI impI)
    fix category year technique
    assume "spec_matches category year technique (Entry key_str r)"
    then have "load_type_element e year technique (dc\<lparr>element_bind := [Entry key_str r]\<rparr>)
                    (Some category) reverse_layers
         = spec_apply (dc\<lparr>element_bind := [Entry key_str r]\<rparr>) reverse_layers e r"
      unfolding load_type_element_filter
      by (simp add: spec_category_def bind_err_def split: sum.splits)
    also have "\<dots> = spec_apply dc reverse_layers e r"
      by (simp add: spec_apply_def ll)
    finally show "load_type_element e year technique (dc\<lparr>element_bind := [Entry key_str r]\<rparr>)
                    (Some category) reverse_layers
                  = load_type_element_by_key e key_str dc reverse_layers"
      using k by simp
  qed
qed

theorem load_type_element_by_key_lookup_witness:
  "''Floor_1918_heavy'' \<notin> item_key ` set (element_bind ex_data)
   \<and> load_type_element_by_key (new_element ''OuterWall'') ''Floor_1918_heavy'' ex_data True
       = Inl (KeyError ''Floor_1918_heavy'')
   \<and> distinct (map item_key (element_bind ex_data))
   \<and> Version ''0.7'' \<in> set (element_bind ex_data)
   \<and> load_type_element_by_key (new_element ''OuterWall'') ''version'' ex_data True
       = Inl TypeError
   \<and> Entry ''OuterWall_1918_heavy'' ex_outer_record \<in> set (element_bind ex_data)
   \<and> spec_applicable ex_data (new_element ''OuterWall'') ex_outer_record
   \<and> (\<exists>e'. load_type_element_by_key (new_element ''OuterWall'') ''OuterWall_1918_heavy''
              ex_data True = Inr e'
          \<and> type_name e' = ''OuterWall''
          \<and> building_age_group e' = Some (0, 1918)
          \<and> construction_type e' = Some ''heavy''
          \<and> inner_radiation e' = Some 5.0
          \<and> inner_convection e' = Some 2.7
          \<and> outer_radiation e' = Some 5.0
          \<and> outer_convection e' = Some 20.0
          \<and> g_value e' = None
          \<and> map layer_view (layers e') = [(''1'', 0.36, ''m2''), (''0'', 0.015, ''m1'')])
   \<and> Entry ''InnerWall_1918_heavy'' ex_inner_record \<in> set (element_bind ex_data)
   \<and> \<not> spec_applicable ex_data (new_element ''OuterWall'') ex_inner_record
   \<and> (\<nexists>e'. load_type_element_by_key (new_element ''OuterWall'') ''InnerWall_1918_heavy''
              ex_data True = Inr e')
   \<and> spec_matches ''OuterWall'' 1900 ''heavy'' (Entry ''OuterWall_1918_heavy'' ex_outer_record)
   \<and> load_type_element (new_element ''OuterWall'') 1900 ''heavy''
         (ex_data\<lparr>element_bind := [Entry ''OuterWall_1918_heavy'' ex_outer_record]\<rparr>)
         (Some ''OuterWall'') True
       = load_type_element_by_key (new_element ''OuterWall'') ''OuterWall_1918_heavy'' ex_data True"
proof -
  define e where "e = new_element ''OuterWall''"
  define ko where "ko = ''OuterWall_1918_heavy''"
  define ki where "ki = ''InnerWall_1918_heavy''"
  define kf where "kf = ''Floor_1918_heavy''"
  have h1: "kf \<notin> item_key ` set (element_bind ex_data)"
    by (simp add: ex_data_def kf_def)
  have h2: "distinct (map item_key (element_bind ex_data))"
    by (simp add: ex_data_def)
  have h3: "Version ''0.7'' \<in> set (element_bind ex_data)"
    by (simp add: ex_data_def)
  have h4: "Entry ko ex_outer_record \<in> set (element_bind ex_data)"
    by (simp add: ex_data_def ko_def)
  have h5: "Entry ki ex_inner_record \<in> set (element_bind ex_data)"
    by (simp add: ex_data_def ki_def)
  have h6: "spec_matches ''OuterWall'' 1900 ''heavy'' (Entry ko ex_outer_record)"
    by (simp add: ex_outer_record_def ko_def)
  have s1: "spec_applicable ex_data e ex_outer_record"
    by (simp add: spec_applicable_def ex_defs e_def)
  have s2: "\<not> spec_applicable ex_data e ex_inner_record"
    by (simp add: spec_applicable_def ex_defs e_def)
  note t1 = load_type_element_by_key_lookup
    [where key_str = kf and dc = ex_data and e = e and reverse_layers = True
       and v = "''0.7''"]
  note t2 = load_type_element_by_key_lookup
    [where key_str = ko and dc = ex_data and e = e and reverse_layers = True
       and r = ex_outer_record]
  note t3 = load_type_element_by_key_lookup
    [where key_str = ki and dc = ex_data and e = e and reverse_layers = True
       and r = ex_inner_record]
  from t1 h1 have a: "load_type_element_by_key e kf ex_data True = Inl (KeyError kf)"
    by blast
  from t1 h2 h3 have b: "load_type_element_by_key e ''version'' ex_data True = Inl TypeError"
    by blast
  from t2 h2 h4 s1 obtain e' where
    c: "load_type_element_by_key e ko ex_data True = Inr e'"
    by blast
  from t2 h2 h4 c have d: "spec_applied True e ex_outer_record e'"
    by blast
  from t2 h2 h4 h6 have f: "load_type_element e 1900 ''heavy''
         (ex_data\<lparr>element_bind := [Entry ko ex_outer_record]\<rparr>) (Some ''OuterWall'') True
       = load_type_element_by_key e ko ex_data True"
    by blast
  from t3 h2 h5 s2 have g: "\<nexists>e'. load_type_element_by_key e ki ex_data True = Inr e'"
    by blast
  have l: "layers e = []" by (simp add: e_def new_element_def)
  from d have d1: "type_name e' = ''OuterWall''"
    "building_age_group e' = Some (0, 1918)"
    "construction_type e' = Some ''heavy''"
    "inner_radiation e' = Some 5.0"
    "inner_convection e' = Some 2.7"
    "outer_radiation e' = Some 5.0"
    "outer_convection e' = Some 20.0"
    "g_value e' = None"
    by (simp_all add: spec_applied_def e_def new_element_def ex_outer_record_def)
  from d have "map layer_view (drop (length (layers e)) (layers e'))
      = map layer_in_view (rev (in_layer ex_outer_record))"
    by (simp add: spec_applied_def)
  then have d2: "map layer_view (layers e') = [(''1'', 0.36, ''m2''), (''0'', 0.015, ''m1'')]"
    by (simp add: l ex_outer_record_def layer_in_view_def)
  from c d1 d2 have x: "\<exists>e'. load_type_element_by_key e ko ex_data True = Inr e'
          \<and> type_name e' = ''OuterWall''
          \<and> building_age_group e' = Some (0, 1918)
          \<and> construction_type e' = Some ''heavy''
          \<and> inner_radiation e' = Some 5.0
          \<and> inner_convection e' = Some 2.7
          \<and> outer_radiation e' = Some 5.0
          \<and> outer_convection e' = Some 20.0
          \<and> g_value e' = None
          \<and> map layer_view (layers e') = [(''1'', 0.36, ''m2''), (''0'', 0.015, ''m1'')]"
    by (intro exI [of _ e'] conjI)
  from h1 a h2 h3 b h4 s1 x h5 s2 g h6 f show ?thesis
    unfolding e_def ko_def ki_def kf_def by (intro conjI)
qed

text \<open>
  Claim C10. In \<^verbatim>\<open>load_type_element\<close> the \<open>element_type\<close> override takes part only in
  the selection of the records (the prefix test of the key). Which coefficients are
  copied is decided by the runtime type name of the element: an element of an opaque or
  window type reads \<^verbatim>\<open>outer_radiation\<close> of the selected record and raises
  \<^verbatim>\<open>KeyError\<close> when the record does not hold it, an element of an opaque type ends with
  the outer coefficients of the record, and an element of any other type keeps its own
  outer coefficients, whatever category the override names.
\<close>

theorem element_type_override_selects_records_only:
  "load_type_element e year technique dc (Some t) reverse_layers
     = spec_apply_all dc reverse_layers e
         (filter (spec_matches t year technique) (element_bind dc))
   \<and> (\<forall>k r rest.
         filter (spec_matches t year technique) (element_bind dc) = Entry k r # rest
         \<and> type_name e \<in> {''OuterWall'', ''Rooftop'', ''Door'', ''Window''}
         \<and> in_outer_radiation r = None
         \<longrightarrow> load_type_element e year technique dc (Some t) reverse_layers
               = Inl (KeyError ''outer_radiation''))
   \<and> (\<forall>k r e'.
         filter (spec_matches t year technique) (element_bind dc) = [Entry k r]
         \<and> type_name e \<in> {''OuterWall'', ''Rooftop'', ''Door''}
         \<and> load_type_element e year technique dc (Some t) reverse_layers = Inr e'
         \<longrightarrow> outer_radiation e' = in_outer_radiation r
             \<and> outer_convection e' = in_outer_convection r)
   \<and> (\<forall>k r e'.
         filter (spec_matches t year technique) (element_bind dc) = [Entry k r]
         \<and> type_name e \<notin> {''OuterWall'', ''Rooftop'', ''Door'', ''Window''}
         \<and> load_type_element e year technique dc (Some t) reverse_layers = Inr e'
         \<longrightarrow> outer_radiation e' = outer_radiation e
             \<and> outer_convection e' = outer_convection e)"
proof -
  have f: "load_type_element e year technique dc (Some t) reverse_layers
     = spec_apply_all dc reverse_layers e
         (filter (spec_matches t year technique) (element_bind dc))"
    by (simp add: load_type_element_filter spec_category_def)
  have 1: "load_type_element e year technique dc (Some t) reverse_layers
               = Inl (KeyError ''outer_radiation'')"
    if "filter (spec_matches t year technique) (element_bind dc) = Entry k r # rest"
      and "type_name e \<in> {''OuterWall'', ''Rooftop'', ''Door'', ''Window''}"
      and "in_outer_radiation r = None" for k r rest
  proof -
    from that(2,3) have "set_basic_data e r = Inl (KeyError ''outer_radiation'')"
      by (rule set_basic_data_missing_outer_radiation)
    then have "spec_apply dc reverse_layers e r = Inl (KeyError ''outer_radiation'')"
      by (simp add: spec_apply_def bind_err_Inl)
    then show ?thesis unfolding f that(1) by (rule spec_apply_all_first_error)
  qed
  have s: "spec_apply dc reverse_layers e r = Inr e'"
    if "filter (spec_matches t year technique) (element_bind dc) = [Entry k r]"
      and "load_type_element e year technique dc (Some t) reverse_layers = Inr e'" for k r e'
    using that unfolding f by (simp add: bind_err_def split: sum.splits)
  have 2: "outer_radiation e' = in_outer_radiation r \<and> outer_convection e' = in_outer_convection r"
    if "filter (spec_matches t year technique) (element_bind dc) = [Entry k r]"
      and "type_name e \<in> {''OuterWall'', ''Rooftop'', ''Door''}"
      and "load_type_element e year technique dc (Some t) reverse_layers = Inr e'" for k r e'
  proof -
    from spec_apply_coefficients [OF s [OF that(1,3)]] obtain e1 where
      "set_basic_data e r = Inr e1" "outer_radiation e' = outer_radiation e1"
      "outer_convection e' = outer_convection e1" by blast
    with set_basic_data_opaque [OF that(2), of r e1] show ?thesis by simp
  qed
  have 3: "outer_radiation e' = outer_radiation e \<and> outer_convection e' = outer_convection e"
    if "filter (spec_matches t year technique) (element_bind dc) = [Entry k r]"
      and "type_name e \<notin> {''OuterWall'', ''Rooftop'', ''Door'', ''Window''}"
      and "load_type_element e year technique dc (Some t) reverse_layers = Inr e'" for k r e'
  proof -
    from spec_apply_coefficients [OF s [OF that(1,3)]] obtain e1 where
      "set_basic_data e r = Inr e1" "outer_radiation e' = outer_radiation e1"
      "outer_convection e' = outer_convection e1" by blast
    with set_basic_data_generic [OF that(2), of r e1] show ?thesis by simp
  qed
  from f 1 2 3 show ?thesis by blast
qed

theorem element_type_override_selects_records_only_witness:
  "filter (spec_matches ''InnerWall'' 1900 ''heavy'') (element_bind ex_data)
      = Entry ''InnerWall_1918_heavy'' ex_inner_record # []
   \<and> type_name (new_element ''OuterWall'') \<in> {''OuterWall'', ''Rooftop'', ''Door'', ''Window''}
   \<and> in_outer_radiation ex_inner_record = None
   \<and> load_type_element (new_element ''OuterWall'') 1900 ''heavy'' ex_data (Some ''InnerWall'') False
       = Inl (KeyError ''outer_radiation'')
   \<and> filter (spec_matches ''OuterWall'' 1900 ''heavy'') (element_bind ex_data)
      = [Entry ''OuterWall_1918_heavy'' ex_outer_record]
   \<and> type_name (new_element ''Rooftop'') \<in> {''OuterWall'', ''Rooftop'', ''Door''}
   \<and> (\<exists>e'. load_type_element (new_element ''Rooftop'') 1900 ''heavy'' ex_data
                (Some ''OuterWall'') False = Inr e'
            \<and> outer_radiation e' = Some 5.0 \<and> outer_convection e' = Some 20.0)
   \<and> type_name (new_element ''InnerWall'') \<notin> {''OuterWall'', ''Rooftop'', ''Door'', ''Window''}
   \<and> (\<exists>e'. load_type_element (new_element ''InnerWall'') 1900 ''heavy'' ex_data
                (Some ''OuterWall'') False = Inr e'
            \<and> outer_radiation e' = None \<and> outer_convection e' = None)"
proof -
  have h1: "filter (spec_matches ''InnerWall'' 1900 ''heavy'') (element_bind ex_data)
      = Entry ''InnerWall_1918_heavy'' ex_inner_record # []"
    by (simp add: ex_defs)
  have h2: "type_name (new_element ''OuterWall'') \<in> {''OuterWall'', ''Rooftop'', ''Door'', ''Window''}"
    by (simp add: new_element_def)
  have h3: "in_outer_radiation ex_inner_record = None"
    by (simp add: ex_inner_record_def)
  have h4: "filter (spec_matches ''OuterWall'' 1900 ''heavy'') (element_bind ex_data)
      = [Entry ''OuterWall_1918_heavy'' ex_outer_record]"
    by (simp add: ex_defs)
  have h5: "type_name (new_element ''Rooftop'') \<in> {''OuterWall'', ''Rooftop'', ''Door''}"
    by (simp add: new_element_def)
  have h6: "type_name (new_element ''InnerWall'') \<notin> {''OuterWall'', ''Rooftop'', ''Door'', ''Window''}"
    by (simp add: new_element_def)
  have m: "\<forall>p \<in> set (in_layer ex_outer_record).
         in_material_id (snd p) \<in> fst ` set (material_bind ex_data)"
    by (simp add: ex_defs)
  have r: "\<exists>e'. load_type_element (new_element ''Rooftop'') 1900 ''heavy'' ex_data
                (Some ''OuterWall'') False = Inr e'"
  proof -
    have "\<exists>e1. set_basic_data (new_element ''Rooftop'') ex_outer_record = Inr e1"
      by (simp add: set_basic_data_def ex_defs getitem_def bind_err_def)
    then obtain e1 where "set_basic_data (new_element ''Rooftop'') ex_outer_record = Inr e1" ..
    from spec_apply_present [OF this m, of False] show ?thesis
      unfolding load_type_element_filter spec_category_def using h4
      by (auto simp: bind_err_def)
  qed
  have i: "\<exists>e'. load_type_element (new_element ''InnerWall'') 1900 ''heavy'' ex_data
                (Some ''OuterWall'') False = Inr e'"
  proof -
    have "\<exists>e1. set_basic_data (new_element ''InnerWall'') ex_outer_record = Inr e1"
      by (simp add: set_basic_data_def ex_defs getitem_def bind_err_def)
    then obtain e1 where "set_basic_data (new_element ''InnerWall'') ex_outer_record = Inr e1" ..
    from spec_apply_present [OF this m, of False] show ?thesis
      unfolding load_type_element_filter spec_category_def using h4
      by (auto simp: bind_err_def)
  qed
  have a: "load_type_element (new_element ''OuterWall'') 1900 ''heavy'' ex_data
             (Some ''InnerWall'') False = Inl (KeyError ''outer_radiation'')"
    using element_type_override_selects_records_only [of "new_element ''OuterWall''" 1900 "''heavy''" ex_data "''InnerWall''" False]
      h1 h2 h3 by blast
  have b: "\<exists>e'. load_type_element (new_element ''Rooftop'') 1900 ''heavy'' ex_data
                (Some ''OuterWall'') False = Inr e'
            \<and> outer_radiation e' = Some 5.0 \<and> outer_convection e' = Some 20.0"
  proof -
    from r obtain e' where e': "load_type_element (new_element ''Rooftop'') 1900 ''heavy'' ex_data
                (Some ''OuterWall'') False = Inr e'" ..
    with element_type_override_selects_records_only [of "new_element ''Rooftop''" 1900 "''heavy''" ex_data "''OuterWall''" False] h4 h5
    have "outer_radiation e' = in_outer_radiation ex_outer_record
        \<and> outer_convection e' = in_outer_convection ex_outer_record" by blast
    with e' show ?thesis by (simp add: ex_outer_record_def)
  qed
  have c: "\<exists>e'. load_type_element (new_element ''InnerWall'') 1900 ''heavy'' ex_data
                (Some ''OuterWall'') False = Inr e'
            \<and> outer_radiation e' = None \<and> outer_convection e' = None"
  proof -
    from i obtain e' where e': "load_type_element (new_element ''InnerWall'') 1900 ''heavy'' ex_data
                (Some ''OuterWall'') False = Inr e'" ..
    with element_type_override_selects_records_only [of "new_element ''InnerWall''" 1900 "''heavy''" ex_data "''OuterWall''" False] h4 h6
    have "outer_radiation e' = outer_radiation (new_element ''InnerWall'')
        \<and> outer_convection e' = outer_convection (new_element ''InnerWall'')" by blast
    with e' show ?thesis by (simp add: new_element_def)
  qed
  from h1 h2 h3 a h4 h5 b h6 c show ?thesis by blast
qed

section \<open>Claims about the geometry estimator\<close>

text \<open>
  Claim C4. For a valid input (at least one floor, neighbour count 0, 1 or 2, cellar and
  attic type 0 to 3) \<^verbatim>\<open>generate_archetype\<close> returns whenever none of its collaborators
  raises, and in everything it returns the heated cellar factor is 0 for cellar type 0 or
  1, 0.5 for type 2 and 1.0 for type 3, the heated attic factor likewise by attic type;
  the heated floor count is the cellar factor plus the number of floors plus 0.75 times
  the attic factor; and the living area per floor times the heated floor count is the net
  leased area that was put in. The last equation is one of real arithmetic: the division
  of the source rounds, and the specification words the property "within floating-point
  tolerance".
\<close>

theorem heated_floor_count_and_living_area:
  assumes "1 \<le> a_number_of_floors args"
    and "neighbour_buildings (SingleFamilyDwelling args) \<in> {0, 1, 2}"
    and "cellar (SingleFamilyDwelling args) \<in> {0, 1, 2, 3}"
    and "attic (SingleFamilyDwelling args) \<in> {0, 1, 2, 3}"
  shows "(collaborators_succeed ext
            \<longrightarrow> (\<exists>g w'. generate_archetype ext (SingleFamilyDwelling args) w = Inr (g, w')))
     \<and> (\<forall>g w'. generate_archetype ext (SingleFamilyDwelling args) w = Inr (g, w') \<longrightarrow>
          u_est_factor_heated_cellar g
            = (if cellar (SingleFamilyDwelling args) \<in> {0, 1} then 0
               else if cellar (SingleFamilyDwelling args) = 2 then 0.5 else 1.0)
        \<and> u_est_factor_heated_attic g
            = (if attic (SingleFamilyDwelling args) \<in> {0, 1} then 0
               else if attic (SingleFamilyDwelling args) = 2 then 0.5 else 1.0)
        \<and> u_number_of_heated_floors g
            = u_est_factor_heated_cellar g + of_int (a_number_of_floors args)
              + 0.75 * u_est_factor_heated_attic g
        \<and> u_living_area_per_floor g * u_number_of_heated_floors g = a_net_leased_area args)"
proof -
  have t: "collaborators_succeed ext
      \<longrightarrow> (\<exists>g w'. generate_archetype ext (SingleFamilyDwelling args) w = Inr (g, w'))"
    using init_generate_total [OF assms(1,2), where ext = ext and w = w] by blast
  have nz: "heated_floors_of (SingleFamilyDwelling args) \<noteq> 0"
    by (rule heated_floors_positive [OF assms(1)])
  have r: "u_est_factor_heated_cellar g
            = (if cellar (SingleFamilyDwelling args) \<in> {0, 1} then 0
               else if cellar (SingleFamilyDwelling args) = 2 then 0.5 else 1.0)
        \<and> u_est_factor_heated_attic g
            = (if attic (SingleFamilyDwelling args) \<in> {0, 1} then 0
               else if attic (SingleFamilyDwelling args) = 2 then 0.5 else 1.0)
        \<and> u_number_of_heated_floors g
            = u_est_factor_heated_cellar g + of_int (a_number_of_floors args)
              + 0.75 * u_est_factor_heated_attic g
        \<and> u_living_area_per_floor g * u_number_of_heated_floors g = a_net_leased_area args"
    if g: "generate_archetype ext (SingleFamilyDwelling args) w = Inr (g, w')" for g w'
  proof -
    note f = generate_archetype_fields [OF g]
    have 1: "u_est_factor_heated_cellar g
           = (if cellar (SingleFamilyDwelling args) \<in> {0, 1} then 0
              else if cellar (SingleFamilyDwelling args) = 2 then 0.5 else 1.0)"
      unfolding f(4) using assms(3) by (auto simp: init_tables)
    have 2: "u_est_factor_heated_attic g
           = (if attic (SingleFamilyDwelling args) \<in> {0, 1} then 0
              else if attic (SingleFamilyDwelling args) = 2 then 0.5 else 1.0)"
      unfolding f(5) using assms(4) by (auto simp: init_tables)
    have 3: "u_number_of_heated_floors g
           = u_est_factor_heated_cellar g + of_int (a_number_of_floors args)
             + 0.75 * u_est_factor_heated_attic g"
      unfolding f(1) f(4) f(5) by (rule heated_floors_of_init_plain)
    have 4: "u_living_area_per_floor g * u_number_of_heated_floors g = a_net_leased_area args"
      unfolding f(1) f(2) using nz by (simp add: init_config)
    from 1 2 3 4 show ?thesis by blast
  qed
  from t r show ?thesis by blast
qed

theorem heated_floor_count_and_living_area_witness:
  "1 \<le> a_number_of_floors ex_args
   \<and> neighbour_buildings (SingleFamilyDwelling ex_args) \<in> {0, 1, 2}
   \<and> cellar (SingleFamilyDwelling ex_args) \<in> {0, 1, 2, 3}
   \<and> attic (SingleFamilyDwelling ex_args) \<in> {0, 1, 2, 3}
   \<and> collaborators_succeed no_collaborators
   \<and> (\<exists>g. generate_archetype no_collaborators (SingleFamilyDwelling ex_args) () = Inr (g, ())
          \<and> u_est_factor_heated_cellar g = 0
          \<and> u_est_factor_heated_attic g = 0
          \<and> u_number_of_heated_floors g = 1
          \<and> u_living_area_per_floor g * u_number_of_heated_floors g = 120)"
proof -
  have h1: "1 \<le> a_number_of_floors ex_args" by (simp add: ex_args_def)
  have h2: "neighbour_buildings (SingleFamilyDwelling ex_args) \<in> {0, 1, 2}"
    by (simp add: ex_args_config)
  have h3: "cellar (SingleFamilyDwelling ex_args) \<in> {0, 1, 2, 3}"
    by (simp add: ex_args_config)
  have h4: "attic (SingleFamilyDwelling ex_args) \<in> {0, 1, 2, 3}"
    by (simp add: ex_args_config)
  have a: "a_number_of_floors ex_args = 1" "a_net_leased_area ex_args = 120"
    by (simp_all add: ex_args_def)
  note c = no_collaborators_succeed
  note t = heated_floor_count_and_living_area [OF h1 h2 h3 h4, of no_collaborators "()"]
  from t c obtain g where
    g: "generate_archetype no_collaborators (SingleFamilyDwelling ex_args) () = Inr (g, ())"
    by auto
  from t g have
    c0: "u_est_factor_heated_cellar g = 0"
    and t0: "u_est_factor_heated_attic g = 0"
    and n: "u_number_of_heated_floors g
         = u_est_factor_heated_cellar g + of_int (a_number_of_floors ex_args)
           + 0.75 * u_est_factor_heated_attic g"
    and l: "u_living_area_per_floor g * u_number_of_heated_floors g = a_net_leased_area ex_args"
    by (auto simp: ex_args_config)
  from n have "u_number_of_heated_floors g = 1" by (simp add: c0 t0 a)
  with g c0 t0 l h1 h2 h3 h4 c show ?thesis by (auto simp: a)
qed

text \<open>
  Claim C5. The derivation of the living area per floor raises \<^verbatim>\<open>ZeroDivisionError\<close>
  when the heated floor count (cellar factor plus number of floors plus 0.75 times attic
  factor) is zero. When no collaborator raises that error, \<^verbatim>\<open>generate_archetype\<close> raises
  it exactly when the heated floor count is zero, and with at least one floor and
  non-negative cellar and attic factors it cannot occur. The statement covers the object as
  constructed and the object with any other values put in place of the two factors.
\<close>

theorem zero_division_exactly_when_no_heated_floors:
  "(cf + of_int (a_number_of_floors args) + 0.75 * af = 0
      \<longrightarrow> generate_archetype ext
            ((SingleFamilyDwelling args)
               \<lparr>u_est_factor_heated_cellar := cf, u_est_factor_heated_attic := af\<rparr>) w
          = Inl ZeroDivisionError)
   \<and> (collaborators_never ext ZeroDivisionError
      \<longrightarrow> ((generate_archetype ext
               ((SingleFamilyDwelling args)
                  \<lparr>u_est_factor_heated_cellar := cf, u_est_factor_heated_attic := af\<rparr>) w
              = Inl ZeroDivisionError)
            = (cf + of_int (a_number_of_floors args) + 0.75 * af = 0))
        \<and> (1 \<le> a_number_of_floors args \<and> 0 \<le> cf \<and> 0 \<le> af
            \<longrightarrow> generate_archetype ext
                  ((SingleFamilyDwelling args)
                     \<lparr>u_est_factor_heated_cellar := cf, u_est_factor_heated_attic := af\<rparr>) w
                \<noteq> Inl ZeroDivisionError))"
proof -
  define b where
    "b = (SingleFamilyDwelling args)\<lparr>u_est_factor_heated_cellar := cf, u_est_factor_heated_attic := af\<rparr>"
  define r where "r = generate_archetype ext b w"
  define z where "z = (cf + of_int (a_number_of_floors args) + 0.75 * af = 0)"
  have h: "heated_floors_of b = cf + of_int (a_number_of_floors args) + 0.75 * af"
    unfolding b_def by (rule heated_floors_of_init)
  have n: "nr_of_orientation b \<noteq> 0"
    unfolding b_def by (simp add: init_override_orientation)
  have 0: "r = Inl ZeroDivisionError" if z
  proof -
    from that h have "heated_floors_of b = 0" by (simp add: z_def)
    then show ?thesis unfolding r_def by (simp add: generate_archetype_eq)
  qed
  have 1: "(r = Inl ZeroDivisionError) = z" if c: "collaborators_never ext ZeroDivisionError"
  proof
    assume "r = Inl ZeroDivisionError"
    with generate_archetype_not_zero_division [OF c _ n, of w] have "heated_floors_of b = 0"
      unfolding r_def by blast
    with h show z by (simp add: z_def)
  next
    assume z
    then show "r = Inl ZeroDivisionError" by (rule 0)
  qed
  have 2: "r \<noteq> Inl ZeroDivisionError"
    if c: "collaborators_never ext ZeroDivisionError"
      and p: "1 \<le> a_number_of_floors args \<and> 0 \<le> cf \<and> 0 \<le> af"
  proof -
    define x where "x = 0.75 * af"
    from p have "0 \<le> x" by (simp add: x_def)
    moreover from p have "(1::real) \<le> of_int (a_number_of_floors args)" by simp
    moreover have "heated_floors_of b = cf + of_int (a_number_of_floors args) + x"
      unfolding x_def by (rule h)
    ultimately have "1 \<le> heated_floors_of b" using p by linarith
    then have "heated_floors_of b \<noteq> 0" by simp
    from generate_archetype_not_zero_division [OF c this n] show ?thesis unfolding r_def .
  qed
  from 0 1 2 have "(z \<longrightarrow> r = Inl ZeroDivisionError)
   \<and> (collaborators_never ext ZeroDivisionError
      \<longrightarrow> ((r = Inl ZeroDivisionError) = z)
        \<and> (1 \<le> a_number_of_floors args \<and> 0 \<le> cf \<and> 0 \<le> af \<longrightarrow> r \<noteq> Inl ZeroDivisionError))"
    by blast
  then show ?thesis unfolding r_def b_def z_def .
qed

theorem zero_division_exactly_when_no_heated_floors_witness:
  "generate_archetype no_collaborators
       ((SingleFamilyDwelling ex_args_no_floor)
          \<lparr>u_est_factor_heated_cellar := 0, u_est_factor_heated_attic := 0\<rparr>) ()
      = Inl ZeroDivisionError
   \<and> collaborators_never no_collaborators ZeroDivisionError
   \<and> (1::int) \<le> a_number_of_floors ex_args \<and> (0::real) \<le> 0.5 \<and> (0::real) \<le> 1
   \<and> generate_archetype no_collaborators
        ((SingleFamilyDwelling ex_args)
           \<lparr>u_est_factor_heated_cellar := 0.5, u_est_factor_heated_attic := 1\<rparr>) ()
      \<noteq> Inl ZeroDivisionError"
proof -
  have a: "a_number_of_floors ex_args_no_floor = 0" by (simp add: ex_args_fields)
  have b: "(1::int) \<le> a_number_of_floors ex_args" by (simp add: ex_args_fields)
  note c = no_collaborators_never [of ZeroDivisionError]
  from zero_division_exactly_when_no_heated_floors
    [where args = ex_args_no_floor and cf = 0 and af = 0 and ext = no_collaborators and w = "()"]
  have 1: "generate_archetype no_collaborators
       ((SingleFamilyDwelling ex_args_no_floor)
          \<lparr>u_est_factor_heated_cellar := 0, u_est_factor_heated_attic := 0\<rparr>) ()
      = Inl ZeroDivisionError"
    by (simp add: a)
  from zero_division_exactly_when_no_heated_floors
    [where args = ex_args and cf = "0.5" and af = 1 and ext = no_collaborators and w = "()"] b c
  have 2: "generate_archetype no_collaborators
        ((SingleFamilyDwelling ex_args)
           \<lparr>u_est_factor_heated_cellar := 0.5, u_est_factor_heated_attic := 1\<rparr>) ()
      \<noteq> Inl ZeroDivisionError"
    by simp
  from 1 2 b c show ?thesis by simp
qed

text \<open>
  Claim C6. The roof area is the product of the upper closure factor (1.0), the dormer
  factor (1.0 without and 1.3 with a dormer), the area-per-floor coefficient of the attic
  type and the living area per floor; if and only if that product is exactly zero, the
  roof area is instead the top-floor area, the area-per-roof coefficient of the attic type
  times the living area per floor.
\<close>

theorem roof_area_with_fallback:
  "generate_archetype ext (SingleFamilyDwelling args) w = Inr (g, w') \<Longrightarrow>
     est_upper_building_closure (SingleFamilyDwelling args) = 1.0
   \<and> (dormer (SingleFamilyDwelling args) = 0
        \<longrightarrow> u_est_factor_dormer (SingleFamilyDwelling args) = 1.0)
   \<and> (dormer (SingleFamilyDwelling args) = 1
        \<longrightarrow> u_est_factor_dormer (SingleFamilyDwelling args) = 1.3)
   \<and> (attic (SingleFamilyDwelling args) = 0
        \<longrightarrow> u_est_area_per_floor (SingleFamilyDwelling args) = 1.33
          \<and> u_est_area_per_roof (SingleFamilyDwelling args) = 0)
   \<and> (attic (SingleFamilyDwelling args) = 1
        \<longrightarrow> u_est_area_per_floor (SingleFamilyDwelling args) = 0
          \<and> u_est_area_per_roof (SingleFamilyDwelling args) = 1.33)
   \<and> (attic (SingleFamilyDwelling args) = 2
        \<longrightarrow> u_est_area_per_floor (SingleFamilyDwelling args) = 0.75
          \<and> u_est_area_per_roof (SingleFamilyDwelling args) = 0.67)
   \<and> (attic (SingleFamilyDwelling args) = 3
        \<longrightarrow> u_est_area_per_floor (SingleFamilyDwelling args) = 1.5
          \<and> u_est_area_per_roof (SingleFamilyDwelling args) = 0)
   \<and> u_est_roof_area g
       = (if est_upper_building_closure (SingleFamilyDwelling args)
               * u_est_factor_dormer (SingleFamilyDwelling args)
               * u_est_area_per_floor (SingleFamilyDwelling args)
               * u_living_area_per_floor g = 0
          then u_est_area_per_roof (SingleFamilyDwelling args) * u_living_area_per_floor g
          else est_upper_building_closure (SingleFamilyDwelling args)
               * u_est_factor_dormer (SingleFamilyDwelling args)
               * u_est_area_per_floor (SingleFamilyDwelling args)
               * u_living_area_per_floor g)"
proof -
  assume g: "generate_archetype ext (SingleFamilyDwelling args) w = Inr (g, w')"
  note f = generate_archetype_fields [OF g]
  have r: "u_est_roof_area g
       = (if est_upper_building_closure (SingleFamilyDwelling args)
               * u_est_factor_dormer (SingleFamilyDwelling args)
               * u_est_area_per_floor (SingleFamilyDwelling args)
               * u_living_area_per_floor g = 0
          then u_est_area_per_roof (SingleFamilyDwelling args) * u_living_area_per_floor g
          else est_upper_building_closure (SingleFamilyDwelling args)
               * u_est_factor_dormer (SingleFamilyDwelling args)
               * u_est_area_per_floor (SingleFamilyDwelling args)
               * u_living_area_per_floor g)"
    unfolding f(3) f(2) roof_product_of_def by (rule refl)
  have c: "est_upper_building_closure (SingleFamilyDwelling args) = 1.0"
    by (simp add: init_constants)
  have d0: "dormer (SingleFamilyDwelling args) = 0
        \<longrightarrow> u_est_factor_dormer (SingleFamilyDwelling args) = 1.0"
    by (simp add: init_tables)
  have d1: "dormer (SingleFamilyDwelling args) = 1
        \<longrightarrow> u_est_factor_dormer (SingleFamilyDwelling args) = 1.3"
    by (simp add: init_tables)
  have a0: "attic (SingleFamilyDwelling args) = 0
        \<longrightarrow> u_est_area_per_floor (SingleFamilyDwelling args) = 1.33
          \<and> u_est_area_per_roof (SingleFamilyDwelling args) = 0"
    by (simp add: init_tables)
  have a1: "attic (SingleFamilyDwelling args) = 1
        \<longrightarrow> u_est_area_per_floor (SingleFamilyDwelling args) = 0
          \<and> u_est_area_per_roof (SingleFamilyDwelling args) = 1.33"
    by (simp add: init_tables)
  have a2: "attic (SingleFamilyDwelling args) = 2
        \<longrightarrow> u_est_area_per_floor (SingleFamilyDwelling args) = 0.75
          \<and> u_est_area_per_roof (SingleFamilyDwelling args) = 0.67"
    by (simp add: init_tables)
  have a3: "attic (SingleFamilyDwelling args) = 3
        \<longrightarrow> u_est_area_per_floor (SingleFamilyDwelling args) = 1.5
          \<and> u_est_area_per_roof (SingleFamilyDwelling args) = 0"
    by (simp add: init_tables)
  from c d0 d1 a0 a1 a2 a3 r show ?thesis by blast
qed

theorem roof_area_with_fallback_witness:
  "(\<exists>g. generate_archetype no_collaborators (SingleFamilyDwelling ex_args) () = Inr (g, ())
        \<and> dormer (SingleFamilyDwelling ex_args) = 0
        \<and> attic (SingleFamilyDwelling ex_args) = 0
        \<and> u_living_area_per_floor g = 120
        \<and> u_est_roof_area g = 159.6)
   \<and> (\<exists>g. generate_archetype no_collaborators (SingleFamilyDwelling ex_args_dormer) ()
            = Inr (g, ())
        \<and> dormer (SingleFamilyDwelling ex_args_dormer) = 1
        \<and> attic (SingleFamilyDwelling ex_args_dormer) = 1
        \<and> u_living_area_per_floor g = 120
        \<and> u_est_roof_area g = 159.6)"
proof -
  have "\<exists>g. generate_archetype no_collaborators (SingleFamilyDwelling ex_args) () = Inr (g, ())"
    by (rule no_collaborators_total) (simp_all add: ex_args_fields ex_args_config)
  then obtain g where
    g: "generate_archetype no_collaborators (SingleFamilyDwelling ex_args) () = Inr (g, ())" ..
  have l: "u_living_area_per_floor g = 120"
    unfolding generate_archetype_fields(2) [OF g] heated_floors_of_init_plain
    by (simp add: init_tables ex_args_config ex_args_fields)
  from roof_area_with_fallback [OF g] have "u_est_roof_area g = 159.6"
    by (simp add: ex_args_config l)
  with g l have 1: "\<exists>g. generate_archetype no_collaborators (SingleFamilyDwelling ex_args) ()
            = Inr (g, ())
        \<and> dormer (SingleFamilyDwelling ex_args) = 0
        \<and> attic (SingleFamilyDwelling ex_args) = 0
        \<and> u_living_area_per_floor g = 120
        \<and> u_est_roof_area g = 159.6"
    by (auto simp: ex_args_config)
  have "\<exists>g. generate_archetype no_collaborators (SingleFamilyDwelling ex_args_dormer) ()
          = Inr (g, ())"
    by (rule no_collaborators_total) (simp_all add: ex_args_fields ex_args_config)
  then obtain g' where
    g': "generate_archetype no_collaborators (SingleFamilyDwelling ex_args_dormer) ()
          = Inr (g', ())" ..
  have l': "u_living_area_per_floor g' = 120"
    unfolding generate_archetype_fields(2) [OF g'] heated_floors_of_init_plain
    by (simp add: init_tables ex_args_config ex_args_fields)
  from roof_area_with_fallback [OF g'] have "u_est_roof_area g' = 159.6"
    by (simp add: ex_args_config l')
  with g' l' have 2: "\<exists>g. generate_archetype no_collaborators (SingleFamilyDwelling ex_args_dormer) ()
            = Inr (g, ())
        \<and> dormer (SingleFamilyDwelling ex_args_dormer) = 1
        \<and> attic (SingleFamilyDwelling ex_args_dormer) = 1
        \<and> u_living_area_per_floor g = 120
        \<and> u_est_roof_area g = 159.6"
    by (auto simp: ex_args_config)
  from 1 2 show ?thesis ..
qed

text \<open>
  Claim C7 says that a configuration value without a table entry (attic = 5, say) makes
  the estimator fail with a descriptive error rather than default the coefficients. It
  does not: with attic type 5 the constructor returns an object whose three attic
  coefficients are the pre-set 0, and \<^verbatim>\<open>generate_archetype\<close>, run on that object with
  collaborators that do nothing, returns a roof area of 0.
\<close>

theorem attic_without_table_entry_counterexample:
  "attic (SingleFamilyDwelling ex_args_attic5) = 5
   \<and> u_est_factor_heated_attic (SingleFamilyDwelling ex_args_attic5) = 0
   \<and> u_est_area_per_floor (SingleFamilyDwelling ex_args_attic5) = 0
   \<and> u_est_area_per_roof (SingleFamilyDwelling ex_args_attic5) = 0
   \<and> (\<exists>g. generate_archetype no_collaborators (SingleFamilyDwelling ex_args_attic5) ()
            = Inr (g, ())
        \<and> u_est_roof_area g = 0)"
proof -
  have "\<exists>g. generate_archetype no_collaborators (SingleFamilyDwelling ex_args_attic5) ()
          = Inr (g, ())"
    by (rule no_collaborators_total) (simp_all add: ex_args_fields ex_args_config)
  then obtain g where
    g: "generate_archetype no_collaborators (SingleFamilyDwelling ex_args_attic5) ()
          = Inr (g, ())" ..
  have t: "u_est_factor_heated_attic (SingleFamilyDwelling ex_args_attic5) = 0"
    "u_est_area_per_floor (SingleFamilyDwelling ex_args_attic5) = 0"
    "u_est_area_per_roof (SingleFamilyDwelling ex_args_attic5) = 0"
    by (simp_all add: init_tables ex_args_config)
  have 4: "u_est_roof_area g = 0"
    unfolding generate_archetype_fields(3) [OF g] roof_product_of_def by (simp add: t)
  from g 4 t show ?thesis by (auto simp: ex_args_config)
qed

text \<open>
  Claim C7, amended. For a residential layout, attic, cellar or dormer value that has no
  entry in the coefficient tables, the constructor raises no configuration error: it
  leaves the coefficients of that value at their pre-set default 0.0.
\<close>

theorem missing_table_entry_keeps_defaults:
  "(attic (SingleFamilyDwelling args) \<notin> {0, 1, 2, 3}
      \<longrightarrow> u_est_factor_heated_attic (SingleFamilyDwelling args) = 0
        \<and> u_est_area_per_floor (SingleFamilyDwelling args) = 0
        \<and> u_est_area_per_roof (SingleFamilyDwelling args) = 0)
   \<and> (cellar (SingleFamilyDwelling args) \<notin> {0, 1, 2, 3}
      \<longrightarrow> u_est_factor_heated_cellar (SingleFamilyDwelling args) = 0)
   \<and> (dormer (SingleFamilyDwelling args) \<notin> {0, 1}
      \<longrightarrow> u_est_factor_dormer (SingleFamilyDwelling args) = 0)
   \<and> (residential_layout (SingleFamilyDwelling args) \<notin> {0, 1}
      \<longrightarrow> u_est_facade_to_floor_area (SingleFamilyDwelling args) = 0)"
proof -
  have 1: "attic (SingleFamilyDwelling args) \<notin> {0, 1, 2, 3}
      \<longrightarrow> u_est_factor_heated_attic (SingleFamilyDwelling args) = 0
        \<and> u_est_area_per_floor (SingleFamilyDwelling args) = 0
        \<and> u_est_area_per_roof (SingleFamilyDwelling args) = 0"
    by (simp add: init_tables)
  have 2: "cellar (SingleFamilyDwelling args) \<notin> {0, 1, 2, 3}
      \<longrightarrow> u_est_factor_heated_cellar (SingleFamilyDwelling args) = 0"
    by (simp add: init_tables)
  have 3: "dormer (SingleFamilyDwelling args) \<notin> {0, 1}
      \<longrightarrow> u_est_factor_dormer (SingleFamilyDwelling args) = 0"
    by (simp add: init_tables)
  have 4: "residential_layout (SingleFamilyDwelling args) \<notin> {0, 1}
      \<longrightarrow> u_est_facade_to_floor_area (SingleFamilyDwelling args) = 0"
    by (simp add: init_tables)
  from 1 2 3 4 show ?thesis by blast
qed

theorem missing_table_entry_keeps_defaults_witness:
  "attic (SingleFamilyDwelling ex_args_no_entry) \<notin> {0, 1, 2, 3}
   \<and> cellar (SingleFamilyDwelling ex_args_no_entry) \<notin> {0, 1, 2, 3}
   \<and> dormer (SingleFamilyDwelling ex_args_no_entry) \<notin> {0, 1}
   \<and> residential_layout (SingleFamilyDwelling ex_args_no_entry) \<notin> {0, 1}
   \<and> u_est_factor_heated_attic (SingleFamilyDwelling ex_args_no_entry) = 0
   \<and> u_est_area_per_floor (SingleFamilyDwelling ex_args_no_entry) = 0
   \<and> u_est_area_per_roof (SingleFamilyDwelling ex_args_no_entry) = 0
   \<and> u_est_factor_heated_cellar (SingleFamilyDwelling ex_args_no_entry) = 0
   \<and> u_est_factor_dormer (SingleFamilyDwelling ex_args_no_entry) = 0
   \<and> u_est_facade_to_floor_area (SingleFamilyDwelling ex_args_no_entry) = 0"
proof -
  have h1: "attic (SingleFamilyDwelling ex_args_no_entry) \<notin> {0, 1, 2, 3}"
    by (simp add: ex_args_config)
  have h2: "cellar (SingleFamilyDwelling ex_args_no_entry) \<notin> {0, 1, 2, 3}"
    by (simp add: ex_args_config)
  have h3: "dormer (SingleFamilyDwelling ex_args_no_entry) \<notin> {0, 1}"
    by (simp add: ex_args_config)
  have h4: "residential_layout (SingleFamilyDwelling ex_args_no_entry) \<notin> {0, 1}"
    by (simp add: ex_args_config)
  from missing_table_entry_keeps_defaults [of ex_args_no_entry] h1 h2 h3 h4 show ?thesis by blast
qed

text \<open>
  Claim C9. With the four default orientations (north 0, east 90, south 180, west 270)
  every outer-wall area entry is the estimated outer-wall area divided by the orientation
  count 4, every window area entry is the estimated window area divided by 4, and the
  four entries of each group add up to the respective total.
\<close>

theorem orientation_areas_split_evenly:
  "generate_archetype ext (SingleFamilyDwelling args) w = Inr (g, w') \<Longrightarrow>
     nr_of_orientation (SingleFamilyDwelling args) = 4
   \<and> map (\<lambda>n. snd (snd n)) (outer_wall_names (SingleFamilyDwelling args)) = [0, 90, 180, 270]
   \<and> map (\<lambda>n. snd (snd n)) (window_names (SingleFamilyDwelling args)) = [0, 90, 180, 270]
   \<and> map (map_of (outer_area g)) [0, 90, 180, 270]
       = replicate 4 (Some (u_est_outer_wall_area g / 4))
   \<and> map (map_of (window_area g)) [0, 90, 180, 270]
       = replicate 4 (Some (u_est_win_area g / 4))
   \<and> sum_list (map (\<lambda>orientation. case map_of (outer_area g) orientation of
                      Some a \<Rightarrow> a | None \<Rightarrow> 0)
                 [0, 90, 180, 270])
       = u_est_outer_wall_area g
   \<and> sum_list (map (\<lambda>orientation. case map_of (window_area g) orientation of
                      Some a \<Rightarrow> a | None \<Rightarrow> 0)
                 [0, 90, 180, 270])
       = u_est_win_area g"
proof -
  assume g: "generate_archetype ext (SingleFamilyDwelling args) w = Inr (g, w')"
  have a: "map_of (outer_area g) 0 = Some (u_est_outer_wall_area g / 4)"
    "map_of (outer_area g) 90 = Some (u_est_outer_wall_area g / 4)"
    "map_of (outer_area g) 180 = Some (u_est_outer_wall_area g / 4)"
    "map_of (outer_area g) 270 = Some (u_est_outer_wall_area g / 4)"
    "map_of (window_area g) 0 = Some (u_est_win_area g / 4)"
    "map_of (window_area g) 90 = Some (u_est_win_area g / 4)"
    "map_of (window_area g) 180 = Some (u_est_win_area g / 4)"
    "map_of (window_area g) 270 = Some (u_est_win_area g / 4)"
    by (rule init_generate_areas [OF g], simp)+
  have r: "replicate 4 x = [x, x, x, x]" for x :: "real option"
    by (simp add: numeral_eq_Suc)
  show ?thesis
    by (simp add: a r init_constants init_names)
qed

theorem orientation_areas_split_evenly_witness:
  "\<exists>g. generate_archetype no_collaborators (SingleFamilyDwelling ex_args) () = Inr (g, ())
      \<and> u_est_win_area g = 24
      \<and> map (map_of (outer_area g)) [0, 90, 180, 270]
          = replicate 4 (Some (u_est_outer_wall_area g / 4))
      \<and> map (map_of (window_area g)) [0, 90, 180, 270] = replicate 4 (Some 6)
      \<and> sum_list (map (\<lambda>orientation. case map_of (outer_area g) orientation of
                         Some a \<Rightarrow> a | None \<Rightarrow> 0)
                 [0, 90, 180, 270])
          = u_est_outer_wall_area g
      \<and> sum_list (map (\<lambda>orientation. case map_of (window_area g) orientation of
                         Some a \<Rightarrow> a | None \<Rightarrow> 0)
                 [0, 90, 180, 270])
          = 24"
proof -
  have "\<exists>g. generate_archetype no_collaborators (SingleFamilyDwelling ex_args) () = Inr (g, ())"
    by (rule no_collaborators_total) (simp_all add: ex_args_fields ex_args_config)
  then obtain g where
    g: "generate_archetype no_collaborators (SingleFamilyDwelling ex_args) () = Inr (g, ())" ..
  have w: "u_est_win_area g = 24"
    unfolding generate_archetype_fields(6) [OF g]
    by (simp add: init_constants ex_args_config)
  from orientation_areas_split_evenly [OF g] have
    "map (map_of (outer_area g)) [0, 90, 180, 270]
       = replicate 4 (Some (u_est_outer_wall_area g / 4))"
    "map (map_of (window_area g)) [0, 90, 180, 270] = replicate 4 (Some (u_est_win_area g / 4))"
    "sum_list (map (\<lambda>orientation. case map_of (outer_area g) orientation of
                      Some a \<Rightarrow> a | None \<Rightarrow> 0)
                 [0, 90, 180, 270]) = u_est_outer_wall_area g"
    "sum_list (map (\<lambda>orientation. case map_of (window_area g) orientation of
                      Some a \<Rightarrow> a | None \<Rightarrow> 0)
                 [0, 90, 180, 270]) = u_est_win_area g"
    by blast+
  with g w show ?thesis by (intro exI [of _ g]) simp
qed

end
